theory Spec2Isabelle
  imports Complex_Main
begin

section \<open>Data model\<close>

text \<open>
  Numbers: the program computes with Python and numpy floats.  They are idealised as
  reals.  The one float value that the strategy meets in normal operation and that the
  reals do not have is NaN (pandas' marker of a missing value: the first element of
  \<open>diff\<close>, a rolling mean whose window is not filled, \<open>0/0\<close>); it is modelled
  as \<open>None\<close> in a \<open>real option\<close>, and every comparison with it is false, as in
  Python.  Where the strategy would meet an infinity (a zero average loss in the RSI, a
  zero price in the distance to the fast EMA), the branch is written out.  The ledgers
  divide by prices that an exchange never reports as zero (the entry price in
  \<open>pnl_pct\<close>, the close in the size of a replayed position); at a zero price numpy
  gives \<open>inf\<close> or NaN where the model has HOL's \<open>x / 0 = 0\<close>; the theorems
  that settle the claims about the ledgers do not involve these quotients.
\<close>

text \<open>One row of the OHLCV table built by \<open>ExchangeInterface.fetch_ohlcv\<close>.\<close>

record candle =
  timestamp :: int
  open_price :: real
  high :: real
  low :: real
  close :: real
  volume :: real

text \<open>
  A pandas DataFrame: the six OHLCV columns, row by row in positional order, and the
  columns that were assigned to it afterwards (\<open>df['name'] = series\<close>), by name.
\<close>

record dataframe =
  rows :: "candle list"
  derived :: "string \<rightharpoonup> real option list"

definition set_col :: "dataframe \<Rightarrow> string \<Rightarrow> real option list \<Rightarrow> dataframe" where
  "set_col df name col = df\<lparr>derived := (derived df)(name \<mapsto> col)\<rparr>"

text \<open>\<open>pd.DataFrame(ohlcv, columns=[...])\<close>: a frame with no assigned column.\<close>

definition DataFrame :: "candle list \<Rightarrow> dataframe" where
  "DataFrame cs = \<lparr>rows = cs, derived = Map.empty\<rparr>"

text \<open>
  \<open>config/settings.py\<close>, class \<open>Config\<close>: the strategy and risk parameters.
  \<open>Strategy.__init__\<close> copies them unchanged into \<open>self\<close>, so the record also
  stands for the \<open>self\<close> of \<open>Strategy\<close>.  Periods are non-negative integers.
\<close>

record config =
  EMA_TREND :: nat
  EMA_FAST :: nat
  EMA_SLOW :: nat
  VOLUME_PERIOD :: nat
  VOLUME_MULTIPLIER :: real
  RSI_PERIOD :: nat
  RSI_MIN :: real
  RSI_MAX :: real
  RSI_EXIT :: real
  MACD_FAST :: nat
  MACD_SLOW :: nat
  MACD_SIGNAL :: nat
  STOP_LOSS_PCT :: real
  TAKE_PROFIT_PCT :: real

definition Config :: config where
  "Config = \<lparr>EMA_TREND = 200, EMA_FAST = 20, EMA_SLOW = 50,
             VOLUME_PERIOD = 20, VOLUME_MULTIPLIER = 0.5,
             RSI_PERIOD = 14, RSI_MIN = 40, RSI_MAX = 70, RSI_EXIT = 75,
             MACD_FAST = 12, MACD_SLOW = 26, MACD_SIGNAL = 9,
             STOP_LOSS_PCT = 0.02, TAKE_PROFIT_PCT = 0.05\<rparr>"

datatype py_error = ValueError | IndexError | TypeError

datatype signal = Buy | Sell

datatype trend = Uptrend | Downtrend

text \<open>
  The entries of the \<open>reason\<close> list of \<open>Strategy.analyze\<close>.  The source builds
  strings, some with a formatted float inside; the model keeps which string it is and
  the floats that are formatted (the RSI, which may be NaN; for the volume ratio the two
  operands of the division).
\<close>

datatype reason_item =
    Uptrend_ok
  | RSI_healthy "real option"
  | MACD_bullish_cross
  | Volume_confirmed real "real option"
  | Price_crossed_above_EMA50
  | Price_near_EMA20
  | No_EMA_entry_signal
  | Low_volume real "real option"
  | No_MACD_bullish_cross
  | RSI_out_of_range "real option"
  | Downtrend_price_below_EMA200
  | Extreme_overbought "real option"
  | MACD_bearish_crossover
  | Price_crossed_below_EMA50

text \<open>The value under \<open>'reason'\<close> of the returned dict.\<close>

datatype reason_text = Insufficient_data | Market_Scanning | Joined "reason_item list"

text \<open>The full dict returned by \<open>Strategy.analyze\<close> (lines 182-194).\<close>

record analysis =
  signal :: "signal option"
  price :: real
  rsi :: "real option"
  macd :: real
  trend :: trend
  volume_confirmed :: bool
  volume_ratio :: real
  ema_trend :: real
  ema_slow :: real
  ema_fast :: real
  reason :: reason_text

text \<open>
  What \<open>analyze\<close> returns: either the two-key dict
  \<open>{'signal': None, 'reason': 'Insufficient data'}\<close> or the full dict.
\<close>

datatype analysis_result = Insufficient | Analysis analysis

text \<open>\<open>analysis.get('signal')\<close>, \<open>analysis.get('price')\<close>, \<open>analysis.get('reason', '')\<close>.\<close>

fun get_signal :: "analysis_result \<Rightarrow> signal option" where
  "get_signal Insufficient = None"
| "get_signal (Analysis a) = signal a"

fun get_price :: "analysis_result \<Rightarrow> real option" where
  "get_price Insufficient = None"
| "get_price (Analysis a) = Some (price a)"

fun get_reason :: "analysis_result \<Rightarrow> reason_text" where
  "get_reason Insufficient = Insufficient_data"
| "get_reason (Analysis a) = reason a"

text \<open>
  The keys of the returned dict that hold indicator or market values, that is every key
  other than \<open>'signal'\<close> and \<open>'reason'\<close>.
\<close>

fun indicator_keys :: "analysis_result \<Rightarrow> string list" where
  "indicator_keys Insufficient = []"
| "indicator_keys (Analysis a) =
     [''price'', ''rsi'', ''macd'', ''trend'', ''volume_confirmed'', ''volume_ratio'',
      ''ema_trend'', ''ema_slow'', ''ema_fast'']"

section \<open>Indicators (\<open>bot/strategy.py\<close>)\<close>

text \<open>
  \<open>series.ewm(span=period, adjust=False).mean()\<close>: the first value seeds the
  recurrence, then \<open>y = (1 - alpha) * y_prev + alpha * x\<close> with
  \<open>alpha = 2 / (span + 1)\<close>.  pandas raises ValueError when \<open>span < 1\<close>.
\<close>

fun ewm_from :: "real \<Rightarrow> real \<Rightarrow> real list \<Rightarrow> real list" where
  "ewm_from alpha y [] = []"
| "ewm_from alpha y (x # xs) =
     (let y' = (1 - alpha) * y + alpha * x in y' # ewm_from alpha y' xs)"

fun ewm_mean :: "nat \<Rightarrow> real list \<Rightarrow> real list" where
  "ewm_mean period [] = []"
| "ewm_mean period (x # xs) = x # ewm_from (2 / (real period + 1)) x xs"

definition calculate_ema :: "real list \<Rightarrow> nat \<Rightarrow> py_error + real list" where
  "calculate_ema series period =
     (if period < 1 then Inl ValueError else Inr (ewm_mean period series))"

text \<open>
  \<open>series.rolling(window=w).mean()\<close>: at position \<open>t\<close> the mean of the last
  \<open>w\<close> values when \<open>w\<close> values are there, NaN otherwise (and NaN everywhere for the
  empty window \<open>w = 0\<close>).
\<close>

definition rolling_mean :: "nat \<Rightarrow> real list \<Rightarrow> real option list" where
  "rolling_mean w xs =
     map (\<lambda>t. if w = 0 \<or> t + 1 < w then None
              else Some (sum_list (take w (drop (t + 1 - w) xs)) / real w))
         [0..<length xs]"

text \<open>\<open>series.diff()\<close>: NaN first, then the difference to the previous value.\<close>

definition diff :: "real list \<Rightarrow> real option list" where
  "diff xs = (case xs of [] \<Rightarrow> []
              | _ # _ \<Rightarrow> None # map (\<lambda>(a, b). Some (b - a)) (zip xs (tl xs)))"

text \<open>
  \<open>delta.where(delta > 0, 0)\<close> and \<open>-delta.where(delta < 0, 0)\<close>: the value is
  kept where the comparison holds and replaced by 0 elsewhere (also at NaN).
\<close>

definition gain_of :: "real option \<Rightarrow> real" where
  "gain_of d = (case d of None \<Rightarrow> 0 | Some v \<Rightarrow> if v > 0 then v else 0)"

definition loss_of :: "real option \<Rightarrow> real" where
  "loss_of d = - (case d of None \<Rightarrow> 0 | Some v \<Rightarrow> if v < 0 then v else 0)"

text \<open>
  \<open>rs = gain / loss; rsi = 100 - (100 / (1 + rs))\<close> on one position.  NaN
  propagates; \<open>0/0\<close> is NaN; a positive gain over a zero loss is \<open>+inf\<close>, for which
  the second line gives 100.  Both means are means of non-negative numbers, so
  \<open>1 + rs \<ge> 1\<close> in the last branch.
\<close>

definition rsi_value :: "real option \<Rightarrow> real option \<Rightarrow> real option" where
  "rsi_value gain loss =
     (case (gain, loss) of
        (Some g, Some l) \<Rightarrow>
          if l = 0 then (if g = 0 then None else Some 100)
          else Some (100 - 100 / (1 + g / l))
      | _ \<Rightarrow> None)"

definition calculate_rsi :: "real list \<Rightarrow> nat \<Rightarrow> real option list" where
  "calculate_rsi series period =
     (let delta = diff series;
          gain = rolling_mean period (map gain_of delta);
          loss = rolling_mean period (map loss_of delta)
      in map (\<lambda>(g, l). rsi_value g l) (zip gain loss))"

definition calculate_macd ::
  "real list \<Rightarrow> nat \<Rightarrow> nat \<Rightarrow> nat \<Rightarrow> py_error + (real list \<times> real list)" where
  "calculate_macd series fast slow sig =
     (if fast < 1 then Inl ValueError
      else let exp1 = ewm_mean fast series in
      if slow < 1 then Inl ValueError
      else let exp2 = ewm_mean slow series;
               macd_line = map (\<lambda>(a, b). a - b) (zip exp1 exp2) in
      if sig < 1 then Inl ValueError
      else Inr (macd_line, ewm_mean sig macd_line))"

section \<open>Signal evaluation (\<open>Strategy.analyze\<close>)\<close>

text \<open>
  \<open>df.iloc[-1]\<close> and \<open>df.iloc[-2]\<close> after the indicator columns were assigned: one
  row of the widened table, with the columns that \<open>analyze\<close> reads from it.
\<close>

record row =
  r_close :: real
  r_volume :: real
  r_ema_trend :: real
  r_ema_fast :: real
  r_ema_slow :: real
  r_rsi :: "real option"
  r_macd :: real
  r_macd_signal :: real
  r_volume_avg :: "real option"

text \<open>Comparisons of a possibly-NaN float with a number: false at NaN.\<close>

definition nan_gt :: "real option \<Rightarrow> real \<Rightarrow> bool" where
  "nan_gt x y = (case x of None \<Rightarrow> False | Some v \<Rightarrow> v > y)"

definition nan_between :: "real \<Rightarrow> real option \<Rightarrow> real \<Rightarrow> bool" where
  "nan_between lo x hi = (case x of None \<Rightarrow> False | Some v \<Rightarrow> lo \<le> v \<and> v \<le> hi)"

text \<open>Lines 119-130: the derived booleans.\<close>

definition trend_of :: "row \<Rightarrow> trend" where
  "trend_of last_row = (if r_close last_row > r_ema_trend last_row then Uptrend else Downtrend)"

definition volume_confirmed_of :: "config \<Rightarrow> row \<Rightarrow> bool" where
  "volume_confirmed_of self last_row =
     (case r_volume_avg last_row of None \<Rightarrow> False
      | Some va \<Rightarrow> r_volume last_row > va * VOLUME_MULTIPLIER self)"

definition macd_bullish_cross :: "row \<Rightarrow> row \<Rightarrow> bool" where
  "macd_bullish_cross last_row prev_row =
     (r_macd prev_row < r_macd_signal prev_row \<and> r_macd last_row > r_macd_signal last_row)"

definition macd_bearish_cross :: "row \<Rightarrow> row \<Rightarrow> bool" where
  "macd_bearish_cross last_row prev_row =
     (r_macd prev_row > r_macd_signal prev_row \<and> r_macd last_row < r_macd_signal last_row)"

definition price_cross_above_ema50 :: "row \<Rightarrow> row \<Rightarrow> bool" where
  "price_cross_above_ema50 last_row prev_row =
     (r_close prev_row < r_ema_slow prev_row \<and> r_close last_row > r_ema_slow last_row)"

text \<open>
  \<open>abs(price - ema_fast) / price < 0.005\<close>.  At \<open>price = 0\<close> numpy's quotient is
  \<open>inf\<close> or NaN and the comparison is false.
\<close>

definition price_bounce_ema20 :: "row \<Rightarrow> bool" where
  "price_bounce_ema20 last_row =
     (r_close last_row \<noteq> 0 \<and> \<bar>r_close last_row - r_ema_fast last_row\<bar> / r_close last_row < 0.005)"

text \<open>Lines 132-164: the buy conditions; returns \<open>(signal, reason)\<close>.\<close>

definition buy_conditions :: "config \<Rightarrow> row \<Rightarrow> row \<Rightarrow> signal option \<times> reason_item list" where
  "buy_conditions self last_row prev_row =
     (if trend_of last_row = Uptrend then
        (if nan_between (RSI_MIN self) (r_rsi last_row) (RSI_MAX self) then
           (if macd_bullish_cross last_row prev_row then
              (if volume_confirmed_of self last_row then
                 (if price_cross_above_ema50 last_row prev_row \<or> price_bounce_ema20 last_row then
                    (Some Buy,
                     [Uptrend_ok, RSI_healthy (r_rsi last_row), MACD_bullish_cross,
                      Volume_confirmed (r_volume last_row) (r_volume_avg last_row),
                      if price_cross_above_ema50 last_row prev_row then Price_crossed_above_EMA50
                      else Price_near_EMA20])
                  else
                    (None,
                     [Uptrend_ok, RSI_healthy (r_rsi last_row), MACD_bullish_cross,
                      Volume_confirmed (r_volume last_row) (r_volume_avg last_row),
                      No_EMA_entry_signal]))
               else
                 (None,
                  [Uptrend_ok, RSI_healthy (r_rsi last_row), MACD_bullish_cross,
                   Low_volume (r_volume last_row) (r_volume_avg last_row)]))
            else (None, [Uptrend_ok, RSI_healthy (r_rsi last_row), No_MACD_bullish_cross]))
         else (None, [Uptrend_ok, RSI_out_of_range (r_rsi last_row)]))
      else (None, [Downtrend_price_below_EMA200]))"

text \<open>Lines 166-180: the sell conditions, applied to the outcome of the buy block.\<close>

definition sell_conditions ::
  "config \<Rightarrow> row \<Rightarrow> row \<Rightarrow> signal option \<times> reason_item list \<Rightarrow> signal option \<times> reason_item list" where
  "sell_conditions self last_row prev_row sr =
     (if nan_gt (r_rsi last_row) (RSI_EXIT self) then (Some Sell, [Extreme_overbought (r_rsi last_row)])
      else if macd_bearish_cross last_row prev_row then (Some Sell, [MACD_bearish_crossover])
      else if r_close prev_row > r_ema_slow prev_row \<and> r_close last_row < r_ema_slow last_row
           then (Some Sell, [Price_crossed_below_EMA50])
      else sr)"

text \<open>Lines 103-194: from the two rows to the returned dict.\<close>

definition decide :: "config \<Rightarrow> row \<Rightarrow> row \<Rightarrow> analysis" where
  "decide self last_row prev_row =
     (let sr = sell_conditions self last_row prev_row (buy_conditions self last_row prev_row) in
      \<lparr>signal = fst sr,
       price = r_close last_row,
       rsi = r_rsi last_row,
       macd = r_macd last_row,
       trend = trend_of last_row,
       volume_confirmed = volume_confirmed_of self last_row,
       volume_ratio = (case r_volume_avg last_row of None \<Rightarrow> 0
                       | Some va \<Rightarrow> if va > 0 then r_volume last_row / va else 0),
       ema_trend = r_ema_trend last_row,
       ema_slow = r_ema_slow last_row,
       ema_fast = r_ema_fast last_row,
       reason = (if snd sr \<noteq> [] then Joined (snd sr) else Market_Scanning)\<rparr>)"

text \<open>
  The row at position \<open>i\<close> of the widened table, from the columns computed in
  \<open>analyze\<close>.  All columns have the length of the table.
\<close>

definition row_at ::
  "candle list \<Rightarrow> real list \<Rightarrow> real list \<Rightarrow> real list \<Rightarrow> real option list \<Rightarrow>
   real list \<Rightarrow> real list \<Rightarrow> real option list \<Rightarrow> nat \<Rightarrow> row" where
  "row_at cs c_trend c_fast c_slow c_rsi c_macd c_sig c_vavg i =
     \<lparr>r_close = close (cs ! i), r_volume = volume (cs ! i),
      r_ema_trend = c_trend ! i, r_ema_fast = c_fast ! i, r_ema_slow = c_slow ! i,
      r_rsi = c_rsi ! i, r_macd = c_macd ! i, r_macd_signal = c_sig ! i,
      r_volume_avg = c_vavg ! i\<rparr>"

text \<open>
  \<open>Strategy.analyze(df)\<close>.  It returns the dict and leaves the frame it was given as
  the second component: the indicator columns are assigned to \<open>df\<close> itself, one after
  the other, so an exception leaves the columns assigned before it.
\<close>

definition analyze :: "config \<Rightarrow> dataframe \<Rightarrow> (py_error + analysis_result) \<times> dataframe" where
  "analyze self df =
     (if rows df = [] \<or> length (rows df) < max (EMA_TREND self) (MACD_SLOW self)
      then (Inr Insufficient, df)
      else
        (let cs = rows df; closes = map close cs in
         (case calculate_ema closes (EMA_TREND self) of
            Inl e \<Rightarrow> (Inl e, df)
          | Inr c_trend \<Rightarrow>
         (let df1 = set_col df ''ema_trend'' (map Some c_trend) in
         (case calculate_ema closes (EMA_FAST self) of
            Inl e \<Rightarrow> (Inl e, df1)
          | Inr c_fast \<Rightarrow>
         (let df2 = set_col df1 ''ema_fast'' (map Some c_fast) in
         (case calculate_ema closes (EMA_SLOW self) of
            Inl e \<Rightarrow> (Inl e, df2)
          | Inr c_slow \<Rightarrow>
         (let df3 = set_col df2 ''ema_slow'' (map Some c_slow);
              c_rsi = calculate_rsi closes (RSI_PERIOD self);
              df4 = set_col df3 ''rsi'' c_rsi in
         (case calculate_macd closes (MACD_FAST self) (MACD_SLOW self) (MACD_SIGNAL self) of
            Inl e \<Rightarrow> (Inl e, df4)
          | Inr (c_macd, c_sig) \<Rightarrow>
         (let df5 = set_col df4 ''macd'' (map Some c_macd);
              df6 = set_col df5 ''macd_signal'' (map Some c_sig);
              c_vavg = rolling_mean (VOLUME_PERIOD self) (map volume cs);
              df7 = set_col df6 ''volume_avg'' c_vavg;
              n = length cs in
          (if n < 2 then (Inl IndexError, df7)
           else
             (let last_row = row_at cs c_trend c_fast c_slow c_rsi c_macd c_sig c_vavg (n - 1);
                  prev_row = row_at cs c_trend c_fast c_slow c_rsi c_macd c_sig c_vavg (n - 2)
              in (Inr (Analysis (decide self last_row prev_row)), df7)))))))))))))"

section \<open>Replay (\<open>bot/backtester.py\<close>)\<close>

datatype exit_reason = Exit_signal | Exit_stop_loss | Exit_take_profit

text \<open>The dict stored in \<open>Backtester.position\<close> (lines 82-91).\<close>

record bt_position =
  p_type :: string
  p_entry_price :: real
  p_entry_time :: int
  p_amount_btc :: real
  p_amount_usd :: real
  p_sl :: real
  p_tp :: real
  p_reason :: reason_text

text \<open>
  The dicts appended to \<open>Backtester.trades\<close>.  Only a signal exit has the key
  \<open>'reason'\<close>.
\<close>

record trade =
  t_entry_time :: int
  t_exit_time :: int
  t_entry_price :: real
  t_exit_price :: real
  t_pnl_usd :: real
  t_pnl_pct :: real
  t_exit_reason :: exit_reason
  t_reason :: "reason_text option"

text \<open>The attributes of a \<open>Backtester\<close> that the replay reads and writes.\<close>

record backtester =
  bt_strategy :: config
  bt_stop_loss_pct :: real
  bt_take_profit_pct :: real
  trades :: "trade list"
  equity_curve :: "(int \<times> real) list"
  initial_capital :: real
  capital :: real
  bt_position :: "bt_position option"

text \<open>\<open>Backtester.__init__\<close>.\<close>

definition Backtester_init :: backtester where
  "Backtester_init =
     \<lparr>bt_strategy = Config,
      bt_stop_loss_pct = STOP_LOSS_PCT Config,
      bt_take_profit_pct = TAKE_PROFIT_PCT Config,
      trades = [], equity_curve = [],
      initial_capital = 10000, capital = 10000,
      bt_position = None\<rparr>"

text \<open>
  \<open>simulate_trade(signal, price, timestamp, analysis)\<close>.  It is called with a signal
  that is not \<open>None\<close>.
\<close>

definition simulate_trade ::
  "backtester \<Rightarrow> signal \<Rightarrow> real \<Rightarrow> int \<Rightarrow> analysis_result \<Rightarrow> backtester" where
  "simulate_trade self sig price_now ts an =
     (if sig = Buy \<and> bt_position self = None then
        (let amount_usd = capital self * 0.95;
             amount_btc = amount_usd / price_now;
             sl_price = price_now * (1 - bt_stop_loss_pct self);
             tp_price = price_now * (1 + bt_take_profit_pct self)
         in self\<lparr>bt_position := Some
              \<lparr>p_type = ''long'', p_entry_price = price_now, p_entry_time = ts,
               p_amount_btc = amount_btc, p_amount_usd = amount_usd,
               p_sl = sl_price, p_tp = tp_price, p_reason = get_reason an\<rparr>\<rparr>)
      else
        (case bt_position self of
           Some pos \<Rightarrow>
             (if sig = Sell then
                (let pnl_usd = (price_now - p_entry_price pos) * p_amount_btc pos;
                     pnl_pct = ((price_now - p_entry_price pos) / p_entry_price pos) * 100
                 in self\<lparr>capital := capital self + pnl_usd,
                         trades := trades self @
                           [\<lparr>t_entry_time = p_entry_time pos, t_exit_time = ts,
                             t_entry_price = p_entry_price pos, t_exit_price = price_now,
                             t_pnl_usd = pnl_usd, t_pnl_pct = pnl_pct,
                             t_exit_reason = Exit_signal,
                             t_reason = Some (get_reason an)\<rparr>],
                         bt_position := None\<rparr>)
              else self)
         | None \<Rightarrow> self))"

text \<open>\<open>check_stop_loss_take_profit(row)\<close>.\<close>

definition check_stop_loss_take_profit :: "backtester \<Rightarrow> candle \<Rightarrow> backtester" where
  "check_stop_loss_take_profit self c =
     (case bt_position self of
        None \<Rightarrow> self
      | Some pos \<Rightarrow>
          (if low c \<le> p_sl pos then
             (let exit_price = p_sl pos;
                  pnl_usd = (exit_price - p_entry_price pos) * p_amount_btc pos;
                  pnl_pct = ((exit_price - p_entry_price pos) / p_entry_price pos) * 100
              in self\<lparr>capital := capital self + pnl_usd,
                      trades := trades self @
                        [\<lparr>t_entry_time = p_entry_time pos, t_exit_time = timestamp c,
                          t_entry_price = p_entry_price pos, t_exit_price = exit_price,
                          t_pnl_usd = pnl_usd, t_pnl_pct = pnl_pct,
                          t_exit_reason = Exit_stop_loss, t_reason = None\<rparr>],
                      bt_position := None\<rparr>)
           else if high c \<ge> p_tp pos then
             (let exit_price = p_tp pos;
                  pnl_usd = (exit_price - p_entry_price pos) * p_amount_btc pos;
                  pnl_pct = ((exit_price - p_entry_price pos) / p_entry_price pos) * 100
              in self\<lparr>capital := capital self + pnl_usd,
                      trades := trades self @
                        [\<lparr>t_entry_time = p_entry_time pos, t_exit_time = timestamp c,
                          t_entry_price = p_entry_price pos, t_exit_price = exit_price,
                          t_pnl_usd = pnl_usd, t_pnl_pct = pnl_pct,
                          t_exit_reason = Exit_take_profit, t_reason = None\<rparr>],
                      bt_position := None\<rparr>)
           else self))"

text \<open>
  \<open>df.iloc[lo:hi].copy()\<close>: the rows at positions \<open>lo \<le> t < hi\<close> of every
  column, in a frame of its own.
\<close>

definition iloc_slice :: "dataframe \<Rightarrow> nat \<Rightarrow> nat \<Rightarrow> dataframe" where
  "iloc_slice df lo hi =
     \<lparr>rows = take (hi - lo) (drop lo (rows df)),
      derived = (\<lambda>k. map_option (\<lambda>col. take (hi - lo) (drop lo col)) (derived df k))\<rparr>"

text \<open>Line 193: \<open>window = df.iloc[max(0, i-100):i+1].copy()\<close>.\<close>

definition window :: "dataframe \<Rightarrow> nat \<Rightarrow> dataframe" where
  "window df i = iloc_slice df (nat (max 0 (int i - 100))) (i + 1)"

text \<open>
  Lines 192-218: the body of the replay loop at index \<open>i < len(df)\<close>.  An exception
  of \<open>analyze\<close> ends the replay.
\<close>

definition backtest_step :: "backtester \<Rightarrow> dataframe \<Rightarrow> nat \<Rightarrow> py_error + backtester" where
  "backtest_step self df i =
     (case fst (analyze (bt_strategy self) (window df i)) of
        Inl e \<Rightarrow> Inl e
      | Inr an \<Rightarrow>
          (let current_row = rows df ! i;
               price_now = close current_row;
               ts = timestamp current_row;
               self1 = check_stop_loss_take_profit self current_row;
               self2 = (case get_signal an of
                          Some sig \<Rightarrow> simulate_trade self1 sig price_now ts an
                        | None \<Rightarrow> self1);
               current_equity =
                 (case bt_position self2 of
                    Some pos \<Rightarrow> capital self2 + (price_now - p_entry_price pos) * p_amount_btc pos
                  | None \<Rightarrow> capital self2)
           in Inr (self2\<lparr>equity_curve := equity_curve self2 @ [(ts, current_equity)]\<rparr>)))"

text \<open>Line 191: \<open>for i in range(200, len(df))\<close>, over the list of indices.\<close>

fun replay :: "backtester \<Rightarrow> dataframe \<Rightarrow> nat list \<Rightarrow> py_error + backtester" where
  "replay self df [] = Inr self"
| "replay self df (i # is) =
     (case backtest_step self df i of
        Inl e \<Rightarrow> Inl e
      | Inr self' \<Rightarrow> replay self' df is)"

text \<open>\<open>float('inf')\<close> or a finite float.\<close>

datatype pyfloat = Finite real | Infinity

fun pyfloat_ge :: "pyfloat \<Rightarrow> real \<Rightarrow> bool" where
  "pyfloat_ge Infinity y = True"
| "pyfloat_ge (Finite x) y = (x \<ge> y)"

datatype assessment = GOOD | ACCEPTABLE | POOR

text \<open>The numbers that \<open>generate_report\<close> computes and logs.\<close>

record report =
  total_trades :: nat
  winning_trades :: "trade list"
  losing_trades :: "trade list"
  win_rate :: real
  total_pnl :: real
  avg_win :: real
  avg_loss :: real
  profit_factor :: pyfloat
  final_capital :: real
  total_return_pct :: real
  sl_exits :: nat
  tp_exits :: nat
  signal_exits :: nat
  verdict :: assessment

text \<open>Line 244, as a function of the list of trades.\<close>

definition profit_factor_of :: "trade list \<Rightarrow> pyfloat" where
  "profit_factor_of ts =
     (let winning = filter (\<lambda>t. t_pnl_usd t > 0) ts;
          losing = filter (\<lambda>t. t_pnl_usd t \<le> 0) ts
      in if losing \<noteq> [] \<and> sum_list (map t_pnl_usd losing) \<noteq> 0
         then Finite \<bar>sum_list (map t_pnl_usd winning) / sum_list (map t_pnl_usd losing)\<bar>
         else Infinity)"

text \<open>
  \<open>generate_report()\<close>: nothing is computed when there is no trade; otherwise the
  report.
\<close>

definition generate_report :: "backtester \<Rightarrow> report option" where
  "generate_report self =
     (if trades self = [] then None
      else
        (let n = length (trades self);
             winning = filter (\<lambda>t. t_pnl_usd t > 0) (trades self);
             losing = filter (\<lambda>t. t_pnl_usd t \<le> 0) (trades self);
             wr = (if n > 0 then (real (length winning) / real n) * 100 else 0);
             pf = profit_factor_of (trades self)
         in Some
           \<lparr>total_trades = n,
            winning_trades = winning,
            losing_trades = losing,
            win_rate = wr,
            total_pnl = sum_list (map t_pnl_usd (trades self)),
            avg_win = (if winning \<noteq> [] then sum_list (map t_pnl_usd winning) / real (length winning) else 0),
            avg_loss = (if losing \<noteq> [] then sum_list (map t_pnl_usd losing) / real (length losing) else 0),
            profit_factor = pf,
            final_capital = capital self,
            total_return_pct = ((capital self - initial_capital self) / initial_capital self) * 100,
            sl_exits = length (filter (\<lambda>t. t_exit_reason t = Exit_stop_loss) (trades self)),
            tp_exits = length (filter (\<lambda>t. t_exit_reason t = Exit_take_profit) (trades self)),
            signal_exits = length (filter (\<lambda>t. t_exit_reason t = Exit_signal) (trades self)),
            verdict = (if wr \<ge> 50 \<and> pyfloat_ge pf 1.5 then GOOD
                       else if wr \<ge> 40 \<and> pyfloat_ge pf 1.2 then ACCEPTABLE
                       else POOR)\<rparr>))"

text \<open>
  \<open>run_backtest()\<close> on the outcome of \<open>fetch_historical_data()\<close> (\<open>None\<close> when
  the fetch failed): the state after the replay and the report.
\<close>

definition run_backtest ::
  "backtester \<Rightarrow> dataframe option \<Rightarrow> py_error + (backtester \<times> report option)" where
  "run_backtest self fetched =
     (case fetched of
        None \<Rightarrow> Inr (self, None)
      | Some df \<Rightarrow>
          (case replay self df [200..<length (rows df)] of
             Inl e \<Rightarrow> Inl e
           | Inr self' \<Rightarrow> Inr (self', generate_report self')))"

section \<open>Live trading (\<open>bot/trader.py\<close>, \<open>bot/storage.py\<close>)\<close>

datatype status = Status_open | Status_closed

text \<open>A row of the table \<open>trades\<close> of the database.\<close>

record db_trade =
  db_id :: nat
  db_symbol :: string
  db_type :: signal
  db_entry_price :: real
  db_amount :: real
  db_stop_loss :: real
  db_take_profit :: real
  db_status :: status
  db_exit_price :: "real option"
  db_pnl :: "real option"

text \<open>The dict held in \<open>Trader.position\<close> (lines 66-77, and \<open>Storage.get_open_position\<close>).\<close>

record live_position =
  lp_symbol :: string
  lp_type :: signal
  lp_entry_price :: real
  lp_amount :: real
  lp_sl :: real
  lp_tp :: real
  lp_id :: "nat option"

text \<open>
  \<open>Storage.save_trade\<close> inserts an open row and returns its id (the ids of an
  AUTOINCREMENT key count from 1); \<open>Storage.close_trade\<close> marks the row with the
  given id closed, with its exit price and PnL.  Failures of the database itself are
  outside the model.
\<close>

definition save_trade :: "db_trade list \<Rightarrow> live_position \<Rightarrow> db_trade list \<times> nat option" where
  "save_trade db td =
     (let new_id = length db + 1
      in (db @ [\<lparr>db_id = new_id, db_symbol = lp_symbol td, db_type = lp_type td,
                 db_entry_price = lp_entry_price td, db_amount = lp_amount td,
                 db_stop_loss = lp_sl td, db_take_profit = lp_tp td,
                 db_status = Status_open, db_exit_price = None, db_pnl = None\<rparr>],
          Some new_id))"

definition close_trade :: "db_trade list \<Rightarrow> nat option \<Rightarrow> real \<Rightarrow> db_trade list" where
  "close_trade db trade_id exit_price =
     map (\<lambda>r. if Some (db_id r) = trade_id
               then r\<lparr>db_status := Status_closed,
                      db_exit_price := Some exit_price,
                      db_pnl := Some (if db_type r = Buy
                                      then (exit_price - db_entry_price r) * db_amount r
                                      else (db_entry_price r - exit_price) * db_amount r)\<rparr>
               else r) db"

text \<open>
  \<open>Storage.get_open_position(symbol)\<close>: the first open row of the symbol, as the
  dict that \<open>Trader\<close> keeps.
\<close>

definition get_open_position :: "db_trade list \<Rightarrow> string \<Rightarrow> live_position option" where
  "get_open_position db symb =
     (case filter (\<lambda>r. db_symbol r = symb \<and> db_status r = Status_open) db of
        [] \<Rightarrow> None
      | r # _ \<Rightarrow> Some \<lparr>lp_symbol = db_symbol r, lp_type = db_type r,
                          lp_entry_price = db_entry_price r, lp_amount = db_amount r,
                          lp_sl = db_stop_loss r, lp_tp = db_take_profit r,
                          lp_id = Some (db_id r)\<rparr>)"

datatype close_reason = Signal | Stop_Loss | Take_Profit

text \<open>The dicts returned by \<open>open_position\<close> and \<open>close_position\<close>.\<close>

datatype action = Action_buy real real real | Action_sell real close_reason

text \<open>What \<open>ExchangeInterface.create_order\<close> returns is an order dict or \<open>None\<close>.\<close>

datatype order = Order

record trader =
  tr_strategy :: config
  tr_storage :: "db_trade list"
  tr_symbol :: string
  tr_stop_loss_pct :: real
  tr_take_profit_pct :: real
  tr_position :: "live_position option"
  latest_analysis :: "analysis_result option"

text \<open>
  \<open>Trader.__init__\<close> over a database: the open position, if there is one, is loaded
  from it.  \<open>latest_analysis\<close> is only set by \<open>run_analysis\<close>.
\<close>

definition Trader_init :: "db_trade list \<Rightarrow> trader" where
  "Trader_init db =
     \<lparr>tr_strategy = Config, tr_storage = db, tr_symbol = ''BTC/USDT'',
      tr_stop_loss_pct = STOP_LOSS_PCT Config, tr_take_profit_pct = TAKE_PROFIT_PCT Config,
      tr_position = get_open_position db ''BTC/USDT'', latest_analysis = None\<rparr>"

text \<open>
  \<open>open_position(side, price)\<close>, given what \<open>create_order\<close> returns: the value
  returned and the trader afterwards.
\<close>

definition open_position ::
  "trader \<Rightarrow> signal \<Rightarrow> real \<Rightarrow> order option \<Rightarrow> action option \<times> trader" where
  "open_position self side price_now ord =
     (let amount = 0.001;
          sl = price_now * (1 - tr_stop_loss_pct self);
          tp = price_now * (1 + tr_take_profit_pct self)
      in case ord of
           Some _ \<Rightarrow>
             (let trade_data = \<lparr>lp_symbol = tr_symbol self, lp_type = side,
                                lp_entry_price = price_now, lp_amount = amount,
                                lp_sl = sl, lp_tp = tp, lp_id = None\<rparr>;
                  saved = save_trade (tr_storage self) trade_data
              in (Some (Action_buy price_now sl tp),
                  self\<lparr>tr_storage := fst saved,
                       tr_position := Some (trade_data\<lparr>lp_id := snd saved\<rparr>)\<rparr>))
         | None \<Rightarrow> (None, self))"

text \<open>\<open>close_position(price, reason)\<close>; no order is sent when there is no position.\<close>

definition close_position ::
  "trader \<Rightarrow> real \<Rightarrow> close_reason \<Rightarrow> order option \<Rightarrow> action option \<times> trader" where
  "close_position self price_now why ord =
     (case tr_position self of
        None \<Rightarrow> (None, self)
      | Some pos \<Rightarrow>
          (case ord of
             Some _ \<Rightarrow>
               (Some (Action_sell price_now why),
                self\<lparr>tr_storage := close_trade (tr_storage self) (lp_id pos) price_now,
                     tr_position := None\<rparr>)
           | None \<Rightarrow> (None, self)))"

text \<open>
  Lines 33-55 of \<open>run_analysis\<close>: what is done with the analysis.  For the two-key
  dict both \<open>signal\<close> and \<open>price\<close> are \<open>None\<close>: neither signal test holds, and
  with a position open Python raises TypeError at \<open>price <= sl\<close>.
\<close>

definition act_on ::
  "trader \<Rightarrow> analysis_result \<Rightarrow> order option \<Rightarrow> (py_error + action option) \<times> trader" where
  "act_on self an ord =
     (case an of
        Insufficient \<Rightarrow>
          (case tr_position self of
             None \<Rightarrow> (Inr None, self)
           | Some pos \<Rightarrow> (Inl TypeError, self))
      | Analysis a \<Rightarrow>
          (if signal a = Some Buy \<and> tr_position self = None then
             (let r = open_position self Buy (price a) ord in (Inr (fst r), snd r))
           else if signal a = Some Sell \<and> tr_position self \<noteq> None then
             (let r = close_position self (price a) Signal ord in (Inr (fst r), snd r))
           else
             (case tr_position self of
                None \<Rightarrow> (Inr None, self)
              | Some pos \<Rightarrow>
                  (if price a \<le> lp_sl pos then
                     (let r = close_position self (price a) Stop_Loss ord in (Inr (fst r), snd r))
                   else if price a \<ge> lp_tp pos then
                     (let r = close_position self (price a) Take_Profit ord in (Inr (fst r), snd r))
                   else (Inr None, self)))))"

text \<open>
  \<open>run_analysis()\<close>, given the frame that \<open>fetch_ohlcv\<close> returned and what
  \<open>create_order\<close> returns if it is called.
\<close>

definition run_analysis ::
  "trader \<Rightarrow> dataframe \<Rightarrow> order option \<Rightarrow> (py_error + action option) \<times> trader" where
  "run_analysis self df ord =
     (if rows df = [] then (Inr None, self)
      else
        (case fst (analyze (tr_strategy self) df) of
           Inl e \<Rightarrow> (Inl e, self)
         | Inr an \<Rightarrow> act_on (self\<lparr>latest_analysis := Some an\<rparr>) an ord))"

section \<open>Notions used in the statements\<close>

text \<open>
  Row \<open>i\<close> of the table after \<open>analyze\<close> has assigned all its columns, and the frame
  with these columns, written without the error branches.  \<open>analyze_sufficient\<close> below
  shows that this is what \<open>analyze\<close> computes whenever it returns the full dict.
\<close>

definition macd_line_of :: "config \<Rightarrow> real list \<Rightarrow> real list" where
  "macd_line_of self closes =
     map (\<lambda>(a, b). a - b)
       (zip (ewm_mean (MACD_FAST self) closes) (ewm_mean (MACD_SLOW self) closes))"

definition widened_row :: "config \<Rightarrow> candle list \<Rightarrow> nat \<Rightarrow> row" where
  "widened_row self cs i =
     (let closes = map close cs
      in row_at cs (ewm_mean (EMA_TREND self) closes) (ewm_mean (EMA_FAST self) closes)
           (ewm_mean (EMA_SLOW self) closes) (calculate_rsi closes (RSI_PERIOD self))
           (macd_line_of self closes) (ewm_mean (MACD_SIGNAL self) (macd_line_of self closes))
           (rolling_mean (VOLUME_PERIOD self) (map volume cs)) i)"

definition with_indicators :: "config \<Rightarrow> dataframe \<Rightarrow> dataframe" where
  "with_indicators self df =
     (let closes = map close (rows df)
      in df\<lparr>derived := (derived df)
            (''ema_trend'' \<mapsto> map Some (ewm_mean (EMA_TREND self) closes),
             ''ema_fast'' \<mapsto> map Some (ewm_mean (EMA_FAST self) closes),
             ''ema_slow'' \<mapsto> map Some (ewm_mean (EMA_SLOW self) closes),
             ''rsi'' \<mapsto> calculate_rsi closes (RSI_PERIOD self),
             ''macd'' \<mapsto> map Some (macd_line_of self closes),
             ''macd_signal'' \<mapsto> map Some (ewm_mean (MACD_SIGNAL self) (macd_line_of self closes)),
             ''volume_avg'' \<mapsto> rolling_mean (VOLUME_PERIOD self) (map volume (rows df)))\<rparr>)"

text \<open>The spans for which pandas' \<open>ewm\<close> does not raise.\<close>

definition valid_spans :: "config \<Rightarrow> bool" where
  "valid_spans self =
     (1 \<le> EMA_TREND self \<and> 1 \<le> EMA_FAST self \<and> 1 \<le> EMA_SLOW self \<and>
      1 \<le> MACD_FAST self \<and> 1 \<le> MACD_SLOW self \<and> 1 \<le> MACD_SIGNAL self)"

text \<open>
  The three sell conditions of lines 168-180, on the last and the previous row: RSI above
  the exit threshold, MACD bearish cross, price crossing below the slow EMA.
\<close>

definition sell_override :: "config \<Rightarrow> row \<Rightarrow> row \<Rightarrow> bool" where
  "sell_override self L P \<longleftrightarrow>
     (\<exists>r. r_rsi L = Some r \<and> r > RSI_EXIT self) \<or>
     (r_macd P > r_macd_signal P \<and> r_macd L < r_macd_signal L) \<or>
     (r_close P > r_ema_slow P \<and> r_close L < r_ema_slow L)"

text \<open>
  The entries of the reason trail that record a sub-condition as passed (their strings
  start with a check mark) and as failed (their strings start with a cross).
\<close>

fun passed :: "reason_item \<Rightarrow> bool" where
  "passed Uptrend_ok = True"
| "passed (RSI_healthy r) = True"
| "passed MACD_bullish_cross = True"
| "passed (Volume_confirmed v va) = True"
| "passed Price_crossed_above_EMA50 = True"
| "passed Price_near_EMA20 = True"
| "passed _ = False"

fun failed :: "reason_item \<Rightarrow> bool" where
  "failed No_EMA_entry_signal = True"
| "failed (Low_volume v va) = True"
| "failed No_MACD_bullish_cross = True"
| "failed (RSI_out_of_range r) = True"
| "failed Downtrend_price_below_EMA200 = True"
| "failed _ = False"

text \<open>What an entry of the trail says about the two rows.\<close>

fun item_holds :: "config \<Rightarrow> row \<Rightarrow> row \<Rightarrow> reason_item \<Rightarrow> bool" where
  "item_holds self L P Uptrend_ok = (r_close L > r_ema_trend L)"
| "item_holds self L P (RSI_healthy r) =
     (r = r_rsi L \<and> (\<exists>x. r = Some x \<and> RSI_MIN self \<le> x \<and> x \<le> RSI_MAX self))"
| "item_holds self L P MACD_bullish_cross =
     (r_macd P < r_macd_signal P \<and> r_macd L > r_macd_signal L)"
| "item_holds self L P (Volume_confirmed v va) =
     (v = r_volume L \<and> va = r_volume_avg L \<and>
      (\<exists>a. va = Some a \<and> v > a * VOLUME_MULTIPLIER self))"
| "item_holds self L P Price_crossed_above_EMA50 =
     (r_close P < r_ema_slow P \<and> r_close L > r_ema_slow L)"
| "item_holds self L P Price_near_EMA20 =
     (r_close L \<noteq> 0 \<and> \<bar>r_close L - r_ema_fast L\<bar> / r_close L < 0.005)"
| "item_holds self L P No_EMA_entry_signal =
     (\<not> (r_close P < r_ema_slow P \<and> r_close L > r_ema_slow L) \<and>
      \<not> (r_close L \<noteq> 0 \<and> \<bar>r_close L - r_ema_fast L\<bar> / r_close L < 0.005))"
| "item_holds self L P (Low_volume v va) =
     (v = r_volume L \<and> va = r_volume_avg L \<and>
      \<not> (\<exists>a. va = Some a \<and> v > a * VOLUME_MULTIPLIER self))"
| "item_holds self L P No_MACD_bullish_cross =
     (\<not> (r_macd P < r_macd_signal P \<and> r_macd L > r_macd_signal L))"
| "item_holds self L P (RSI_out_of_range r) =
     (r = r_rsi L \<and> \<not> (\<exists>x. r = Some x \<and> RSI_MIN self \<le> x \<and> x \<le> RSI_MAX self))"
| "item_holds self L P Downtrend_price_below_EMA200 = (\<not> r_close L > r_ema_trend L)"
| "item_holds self L P (Extreme_overbought r) =
     (r = r_rsi L \<and> (\<exists>x. r = Some x \<and> x > RSI_EXIT self))"
| "item_holds self L P MACD_bearish_crossover =
     (r_macd P > r_macd_signal P \<and> r_macd L < r_macd_signal L)"
| "item_holds self L P Price_crossed_below_EMA50 =
     (r_close P > r_ema_slow P \<and> r_close L < r_ema_slow L)"

text \<open>
  The checks of the buy block, in the order in which lines 136-164 make them (the three
  sell conditions are one further check), and the check that an entry of the trail
  reports on.
\<close>

datatype check = Check_trend | Check_rsi | Check_macd | Check_volume | Check_entry | Check_exit

fun check_of :: "reason_item \<Rightarrow> check" where
  "check_of Uptrend_ok = Check_trend"
| "check_of Downtrend_price_below_EMA200 = Check_trend"
| "check_of (RSI_healthy r) = Check_rsi"
| "check_of (RSI_out_of_range r) = Check_rsi"
| "check_of MACD_bullish_cross = Check_macd"
| "check_of No_MACD_bullish_cross = Check_macd"
| "check_of (Volume_confirmed v va) = Check_volume"
| "check_of (Low_volume v va) = Check_volume"
| "check_of Price_crossed_above_EMA50 = Check_entry"
| "check_of Price_near_EMA20 = Check_entry"
| "check_of No_EMA_entry_signal = Check_entry"
| "check_of (Extreme_overbought r) = Check_exit"
| "check_of MACD_bearish_crossover = Check_exit"
| "check_of Price_crossed_below_EMA50 = Check_exit"

definition buy_checks :: "check list" where
  "buy_checks = [Check_trend, Check_rsi, Check_macd, Check_volume, Check_entry]"

text \<open>
  A trail records the sub-conditions of the buy block: it reports on the checks in
  their order, from the first one and without a gap; what each entry says is true of the
  two rows; every entry before the last is a passed check; the last entry is a passed
  check when the outcome is buy, and then all five checks are there, and a failed check
  otherwise; and the entry check is reported as "near EMA20" only when the price did not
  cross the slow EMA.  \<open>trail_records_unique\<close> below shows that these conditions leave
  no freedom: for given rows and outcome there is one such trail.
\<close>

definition trail_records ::
  "config \<Rightarrow> row \<Rightarrow> row \<Rightarrow> bool \<Rightarrow> reason_item list \<Rightarrow> bool" where
  "trail_records self L P buy tr \<longleftrightarrow>
     tr \<noteq> [] \<and> map check_of tr = take (length tr) buy_checks \<and>
     list_all (item_holds self L P) tr \<and> list_all passed (butlast tr) \<and>
     (passed (last tr) \<longleftrightarrow> buy) \<and> (failed (last tr) \<longleftrightarrow> \<not> buy) \<and>
     (buy \<longrightarrow> length tr = length buy_checks) \<and>
     (Price_near_EMA20 \<in> set tr \<longrightarrow> \<not> (r_close P < r_ema_slow P \<and> r_close L > r_ema_slow L))"

subsection \<open>Example inputs\<close>

text \<open>
  One-minute candles with the given closes: every candle has its four prices equal to
  its close and volume 10, and the timestamps are 60000 ms apart.
\<close>

definition candles_of :: "real list \<Rightarrow> candle list" where
  "candles_of xs =
     map (\<lambda>(i, x). \<lparr>timestamp = 60000 * int i, open_price = x, high = x, low = x,
                     close = x, volume = 10\<rparr>)
         (zip [0..<length xs] xs)"

text \<open>201 candles: 199 at 100, then 99.9 and 100.1.\<close>

definition buy_frame :: dataframe where
  "buy_frame = DataFrame (candles_of (replicate 199 100 @ [99.9, 100.1]))"

text \<open>200 candles: 198 at 100, then 101 and 97.\<close>

definition sell_frame :: dataframe where
  "sell_frame = DataFrame (candles_of (replicate 198 100 @ [101, 97]))"

text \<open>200 candles at 94.\<close>

definition flat_frame :: dataframe where
  "flat_frame = DataFrame (candles_of (replicate 198 94 @ [94, 94]))"

text \<open>200 candles: 198 at 100, then 101 and 100.5.\<close>

definition wait_frame :: dataframe where
  "wait_frame = DataFrame (candles_of (replicate 198 100 @ [101, 100.5]))"

text \<open>What \<open>analyze\<close> returns for the four frames (\<open>analyze_examples\<close> below).\<close>

definition buy_analysis :: analysis where
  "buy_analysis = decide Config (widened_row Config (rows buy_frame) 200)
                                (widened_row Config (rows buy_frame) 199)"

definition sell_analysis :: analysis where
  "sell_analysis = decide Config (widened_row Config (rows sell_frame) 199)
                                 (widened_row Config (rows sell_frame) 198)"

definition flat_analysis :: analysis where
  "flat_analysis = decide Config (widened_row Config (rows flat_frame) 199)
                                 (widened_row Config (rows flat_frame) 198)"

definition wait_analysis :: analysis where
  "wait_analysis = decide Config (widened_row Config (rows wait_frame) 199)
                                 (widened_row Config (rows wait_frame) 198)"

text \<open>
  A database with one open long trade of 0.001 BTC entered at 100, with the given
  stop-loss and take-profit prices.
\<close>

definition open_db :: "real \<Rightarrow> real \<Rightarrow> db_trade list" where
  "open_db sl tp =
     [\<lparr>db_id = 1, db_symbol = ''BTC/USDT'', db_type = Buy, db_entry_price = 100,
       db_amount = 0.001, db_stop_loss = sl, db_take_profit = tp,
       db_status = Status_open, db_exit_price = None, db_pnl = None\<rparr>]"

text \<open>Three candles: 100, 99, 100.5.\<close>

definition small_frame :: dataframe where
  "small_frame = DataFrame (candles_of [100, 99, 100.5])"

text \<open>
  The replay with a long position open: entry 100, stop-loss 95, take-profit 110, bought
  with 95% of the initial capital; and a candle that falls to 94 and rises to 111.
\<close>

definition scenario_backtester :: backtester where
  "scenario_backtester =
     Backtester_init\<lparr>bt_position := Some
       \<lparr>p_type = ''long'', p_entry_price = 100, p_entry_time = 0,
        p_amount_btc = 95, p_amount_usd = 9500, p_sl = 95, p_tp = 110,
        p_reason = Joined [Uptrend_ok]\<rparr>\<rparr>"

definition scenario_candle :: candle where
  "scenario_candle =
     \<lparr>timestamp = 60000, open_price = 100, high = 111, low = 94, close = 96, volume = 10\<rparr>"

text \<open>
  Two closed trades of 100 BTC entered at 100: one sold at 101 (PnL +100), one sold at
  99.5 (PnL -50).
\<close>

definition win_trade :: trade where
  "win_trade = \<lparr>t_entry_time = 0, t_exit_time = 60000, t_entry_price = 100,
                t_exit_price = 101, t_pnl_usd = 100, t_pnl_pct = 1,
                t_exit_reason = Exit_take_profit, t_reason = None\<rparr>"

definition loss_trade :: trade where
  "loss_trade = \<lparr>t_entry_time = 120000, t_exit_time = 180000, t_entry_price = 100,
                 t_exit_price = 99.5, t_pnl_usd = - 50, t_pnl_pct = - 0.5,
                 t_exit_reason = Exit_stop_loss, t_reason = None\<rparr>"

text \<open>The names of the columns that \<open>analyze\<close> assigns.\<close>

definition indicator_columns :: "string set" where
  "indicator_columns =
     {''ema_trend'', ''ema_fast'', ''ema_slow'', ''rsi'', ''macd'', ''macd_signal'',
      ''volume_avg''}"

text \<open>
  A strategy with short periods, for the three-candle example.  Its exit threshold lies
  inside the entry range of the RSI.
\<close>

definition small_cfg :: config where
  "small_cfg = \<lparr>EMA_TREND = 2, EMA_FAST = 2, EMA_SLOW = 2,
                VOLUME_PERIOD = 1, VOLUME_MULTIPLIER = 0.5,
                RSI_PERIOD = 2, RSI_MIN = 40, RSI_MAX = 70, RSI_EXIT = 50,
                MACD_FAST = 1, MACD_SLOW = 2, MACD_SIGNAL = 2,
                STOP_LOSS_PCT = 0.02, TAKE_PROFIT_PCT = 0.05\<rparr>"

section \<open>What \<open>analyze\<close> computes\<close>

lemma analyze_insufficient:
  assumes "rows df = [] \<or> length (rows df) < max (EMA_TREND self) (MACD_SLOW self)"
  shows "analyze self df = (Inr Insufficient, df)"
  using assms by (simp add: analyze_def)

lemma analyze_sufficient:
  assumes "valid_spans self" "2 \<le> length (rows df)"
    "max (EMA_TREND self) (MACD_SLOW self) \<le> length (rows df)"
  shows "analyze self df =
           (Inr (Analysis (decide self (widened_row self (rows df) (length (rows df) - 1))
                                       (widened_row self (rows df) (length (rows df) - 2)))),
            with_indicators self df)"
proof -
  from assms(2) have ne: "rows df \<noteq> []" by auto
  from assms(3) have ge: "\<not> length (rows df) < max (EMA_TREND self) (MACD_SLOW self)"
    by linarith
  from assms(1) have sp: "\<not> EMA_TREND self < 1" "\<not> EMA_FAST self < 1" "\<not> EMA_SLOW self < 1"
    "\<not> MACD_FAST self < 1" "\<not> MACD_SLOW self < 1" "\<not> MACD_SIGNAL self < 1"
    by (simp_all add: valid_spans_def)
  from assms(2) have n2: "\<not> length (rows df) < 2" by simp
  show ?thesis
    unfolding analyze_def calculate_ema_def calculate_macd_def widened_row_def with_indicators_def
      macd_line_of_def set_col_def Let_def
      if_not_P[OF ge] if_not_P[OF n2] if_not_P[OF sp(1)] if_not_P[OF sp(2)]
      if_not_P[OF sp(3)] if_not_P[OF sp(4)] if_not_P[OF sp(5)] if_not_P[OF sp(6)]
    using ne ge by simp
qed

lemma analyze_not_Analysis:
  assumes "\<not> valid_spans self \<or> length (rows df) < 2 \<or>
           length (rows df) < max (EMA_TREND self) (MACD_SLOW self)"
  shows "fst (analyze self df) \<noteq> Inr (Analysis a)"
proof (cases "rows df = [] \<or> length (rows df) < max (EMA_TREND self) (MACD_SLOW self)")
  case True
  then show ?thesis by (simp add: analyze_def)
next
  case False
  with assms have c: "\<not> valid_spans self \<or> length (rows df) < 2" by blast
  show ?thesis
    unfolding analyze_def calculate_ema_def calculate_macd_def Let_def if_not_P[OF False]
    using c unfolding valid_spans_def
    by (auto split: if_splits)
qed

lemma analyze_Analysis:
  assumes "fst (analyze self df) = Inr (Analysis a)"
  shows "a = decide self (widened_row self (rows df) (length (rows df) - 1))
                         (widened_row self (rows df) (length (rows df) - 2))"
    and "snd (analyze self df) = with_indicators self df"
    and "2 \<le> length (rows df)" and "max (EMA_TREND self) (MACD_SLOW self) \<le> length (rows df)"
    and "valid_spans self"
proof -
  from assms analyze_not_Analysis [of self df a]
  have "\<not> (\<not> valid_spans self \<or> length (rows df) < 2 \<or>
            length (rows df) < max (EMA_TREND self) (MACD_SLOW self))"
    by blast
  then have v: "valid_spans self" and n2: "2 \<le> length (rows df)"
    and ge: "max (EMA_TREND self) (MACD_SLOW self) \<le> length (rows df)"
    by linarith+
  from analyze_sufficient [OF v n2 ge] assms
  show "a = decide self (widened_row self (rows df) (length (rows df) - 1))
                         (widened_row self (rows df) (length (rows df) - 2))"
    and "snd (analyze self df) = with_indicators self df"
    by simp_all
  from v n2 ge show "2 \<le> length (rows df)"
    and "max (EMA_TREND self) (MACD_SLOW self) \<le> length (rows df)" and "valid_spans self"
    by simp_all
qed

lemma valid_spans_Config: "valid_spans Config"
  by (simp add: valid_spans_def Config_def)

lemma threshold_Config: "max (EMA_TREND Config) (MACD_SLOW Config) = 200"
  by (simp add: Config_def)

section \<open>Insufficient data\<close>

text \<open>
  C6.  For every candle series with fewer candles than
  max(trend-EMA period, slow-MACD period), and for the empty series, \<open>analyze\<close> raises
  nothing and returns the two-key dict: its signal is \<open>None\<close>, its reason is
  "Insufficient data", and it has no price and no indicator key.  The frame is left as
  it was.
\<close>

theorem analyze_insufficient_data:
  assumes "rows df = [] \<or> length (rows df) < max (EMA_TREND self) (MACD_SLOW self)"
  shows "\<exists>res. analyze self df = (Inr res, df) \<and> get_signal res = None \<and>
           get_reason res = Insufficient_data \<and> get_price res = None \<and>
           indicator_keys res = []"
  using analyze_insufficient [OF assms] by simp

theorem analyze_insufficient_data_witness:
  "(rows (DataFrame []) = [] \<or>
      length (rows (DataFrame [])) < max (EMA_TREND Config) (MACD_SLOW Config)) \<and>
   (\<exists>res. analyze Config (DataFrame []) = (Inr res, DataFrame []) \<and> get_signal res = None \<and>
      get_reason res = Insufficient_data \<and> get_price res = None \<and> indicator_keys res = []) \<and>
   length (rows (DataFrame (candles_of (replicate 199 100))))
      < max (EMA_TREND Config) (MACD_SLOW Config) \<and>
   (\<exists>res. analyze Config (DataFrame (candles_of (replicate 199 100)))
             = (Inr res, DataFrame (candles_of (replicate 199 100))) \<and>
      get_signal res = None \<and> get_reason res = Insufficient_data \<and> get_price res = None \<and>
      indicator_keys res = [])"
proof -
  have h1: "rows (DataFrame []) = [] \<or>
      length (rows (DataFrame [])) < max (EMA_TREND Config) (MACD_SLOW Config)"
    by (simp add: DataFrame_def)
  have h2: "length (rows (DataFrame (candles_of (replicate 199 100))))
      < max (EMA_TREND Config) (MACD_SLOW Config)"
    by (simp add: DataFrame_def Config_def candles_of_def)
  from h2 have h2': "rows (DataFrame (candles_of (replicate 199 100))) = [] \<or>
      length (rows (DataFrame (candles_of (replicate 199 100))))
      < max (EMA_TREND Config) (MACD_SLOW Config)" ..
  show ?thesis
    using h1 h2 analyze_insufficient_data [OF h1] analyze_insufficient_data [OF h2']
    by blast
qed

section \<open>The decision rules\<close>

lemma decide_signal:
  "signal (decide self L P) = fst (sell_conditions self L P (buy_conditions self L P))"
  by (simp add: decide_def Let_def)

lemma decide_reason:
  "reason (decide self L P) = Joined (snd (sell_conditions self L P (buy_conditions self L P)))"
  by (simp add: decide_def Let_def sell_conditions_def buy_conditions_def)

lemma decide_fields:
  "price (decide self L P) = r_close L"
  "rsi (decide self L P) = r_rsi L"
  "macd (decide self L P) = r_macd L"
  "trend (decide self L P) = trend_of L"
  "volume_confirmed (decide self L P) = volume_confirmed_of self L"
  "ema_trend (decide self L P) = r_ema_trend L"
  "ema_slow (decide self L P) = r_ema_slow L"
  "ema_fast (decide self L P) = r_ema_fast L"
  by (simp_all add: decide_def Let_def)

lemma buy_conditions_eval:
  "fst (buy_conditions self L P) = Some Buy \<longleftrightarrow>
     trend_of L = Uptrend \<and> nan_between (RSI_MIN self) (r_rsi L) (RSI_MAX self) \<and>
     macd_bullish_cross L P \<and> volume_confirmed_of self L \<and>
     (price_cross_above_ema50 L P \<or> price_bounce_ema20 L)"
  by (simp add: buy_conditions_def)

lemma trend_of_Uptrend: "trend_of L = Uptrend \<longleftrightarrow> r_close L > r_ema_trend L"
  by (simp add: trend_of_def)

lemma nan_between_iff:
  "nan_between lo x hi \<longleftrightarrow> (\<exists>r. x = Some r \<and> lo \<le> r \<and> r \<le> hi)"
  by (cases x) (simp_all add: nan_between_def)

lemma nan_gt_iff: "nan_gt x y \<longleftrightarrow> (\<exists>r. x = Some r \<and> r > y)"
  by (cases x) (simp_all add: nan_gt_def)

lemma volume_confirmed_of_iff:
  "volume_confirmed_of self L \<longleftrightarrow>
     (\<exists>va. r_volume_avg L = Some va \<and> r_volume L > va * VOLUME_MULTIPLIER self)"
  by (cases "r_volume_avg L") (simp_all add: volume_confirmed_of_def)

lemma buy_conditions_Buy:
  "fst (buy_conditions self L P) = Some Buy \<longleftrightarrow>
     r_close L > r_ema_trend L \<and>
     (\<exists>r. r_rsi L = Some r \<and> RSI_MIN self \<le> r \<and> r \<le> RSI_MAX self) \<and>
     (r_macd P < r_macd_signal P \<and> r_macd L > r_macd_signal L) \<and>
     (\<exists>va. r_volume_avg L = Some va \<and> r_volume L > va * VOLUME_MULTIPLIER self) \<and>
     ((r_close P < r_ema_slow P \<and> r_close L > r_ema_slow L) \<or>
      (r_close L \<noteq> 0 \<and> \<bar>r_close L - r_ema_fast L\<bar> / r_close L < 0.005))"
  unfolding buy_conditions_eval trend_of_Uptrend nan_between_iff volume_confirmed_of_iff
    macd_bullish_cross_def price_cross_above_ema50_def price_bounce_ema20_def ..

lemma buy_conditions_trail:
  "snd (buy_conditions self L P) \<noteq> [] \<and>
   list_all (item_holds self L P) (snd (buy_conditions self L P)) \<and>
   list_all passed (butlast (snd (buy_conditions self L P))) \<and>
   (passed (last (snd (buy_conditions self L P))) \<longleftrightarrow> fst (buy_conditions self L P) = Some Buy) \<and>
   (failed (last (snd (buy_conditions self L P))) \<longleftrightarrow> fst (buy_conditions self L P) \<noteq> Some Buy)"
  unfolding buy_conditions_def trend_of_Uptrend nan_between_iff volume_confirmed_of_iff
    macd_bullish_cross_def price_cross_above_ema50_def price_bounce_ema20_def
  by (auto simp del: abs_less_iff)

lemma buy_conditions_order:
  "map check_of (snd (buy_conditions self L P)) =
     take (length (snd (buy_conditions self L P))) buy_checks \<and>
   (fst (buy_conditions self L P) = Some Buy \<longrightarrow>
      length (snd (buy_conditions self L P)) = length buy_checks) \<and>
   (Price_near_EMA20 \<in> set (snd (buy_conditions self L P)) \<longrightarrow>
      \<not> (r_close P < r_ema_slow P \<and> r_close L > r_ema_slow L))"
  unfolding buy_conditions_def price_cross_above_ema50_def buy_checks_def
  by simp

lemma buy_conditions_records:
  "trail_records self L P (fst (buy_conditions self L P) = Some Buy)
     (snd (buy_conditions self L P))"
  unfolding trail_records_def
  using buy_conditions_trail [of self L P] buy_conditions_order [of self L P] by blast

text \<open>Two entries on the same check that are both true of the rows.\<close>

lemma same_check_passed:
  assumes "passed x" "passed y" "check_of x = check_of y"
    "item_holds self L P x" "item_holds self L P y"
    "x = Price_near_EMA20 \<longrightarrow> \<not> (r_close P < r_ema_slow P \<and> r_close L > r_ema_slow L)"
    "y = Price_near_EMA20 \<longrightarrow> \<not> (r_close P < r_ema_slow P \<and> r_close L > r_ema_slow L)"
  shows "x = y"
  using assms by (cases x; cases y) simp_all

lemma same_check_failed:
  assumes "failed x" "failed y" "check_of x = check_of y"
    "item_holds self L P x" "item_holds self L P y"
  shows "x = y"
  using assms by (cases x; cases y) simp_all

lemma passed_failed_clash:
  assumes "passed x" "failed y" "check_of x = check_of y"
    "item_holds self L P x" "item_holds self L P y"
  shows False
  using assms by (cases x; cases y) auto

lemma trail_records_nth:
  assumes "trail_records self L P buy tr"
  shows "length tr \<le> length buy_checks" and "0 < length tr"
    and "\<And>i. i < length tr \<Longrightarrow> check_of (tr ! i) = buy_checks ! i"
    and "\<And>i. i < length tr \<Longrightarrow> item_holds self L P (tr ! i)"
    and "\<And>i. i + 1 < length tr \<Longrightarrow> passed (tr ! i)"
    and "passed (tr ! (length tr - 1)) \<longleftrightarrow> buy"
    and "failed (tr ! (length tr - 1)) \<longleftrightarrow> \<not> buy"
    and "buy \<Longrightarrow> length tr = length buy_checks"
    and "\<And>i. i < length tr \<Longrightarrow> tr ! i = Price_near_EMA20 \<Longrightarrow>
           \<not> (r_close P < r_ema_slow P \<and> r_close L > r_ema_slow L)"
proof -
  from assms have ne: "tr \<noteq> []" and m: "map check_of tr = take (length tr) buy_checks"
    and h: "list_all (item_holds self L P) tr" and p: "list_all passed (butlast tr)"
    and lp: "passed (last tr) \<longleftrightarrow> buy" and lf: "failed (last tr) \<longleftrightarrow> \<not> buy"
    and b: "buy \<longrightarrow> length tr = length buy_checks"
    and n: "Price_near_EMA20 \<in> set tr \<longrightarrow>
              \<not> (r_close P < r_ema_slow P \<and> r_close L > r_ema_slow L)"
    unfolding trail_records_def by blast+
  from m have "length (map check_of tr) = length (take (length tr) buy_checks)" by simp
  then show "length tr \<le> length buy_checks" by simp
  from ne show "0 < length tr" by simp
  show "check_of (tr ! i) = buy_checks ! i" if "i < length tr" for i
  proof -
    have "check_of (tr ! i) = map check_of tr ! i" using that by simp
    also have "\<dots> = buy_checks ! i" unfolding m using that by simp
    finally show ?thesis .
  qed
  show "item_holds self L P (tr ! i)" if "i < length tr" for i
    using h that by (simp add: list_all_length)
  show "passed (tr ! i)" if "i + 1 < length tr" for i
    using p that by (simp add: list_all_length nth_butlast)
  from lp ne show "passed (tr ! (length tr - 1)) \<longleftrightarrow> buy" by (simp add: last_conv_nth)
  from lf ne show "failed (tr ! (length tr - 1)) \<longleftrightarrow> \<not> buy" by (simp add: last_conv_nth)
  from b show "buy \<Longrightarrow> length tr = length buy_checks" by simp
  show "\<not> (r_close P < r_ema_slow P \<and> r_close L > r_ema_slow L)"
    if "i < length tr" "tr ! i = Price_near_EMA20" for i
    using n nth_mem [OF that(1)] that(2) by simp
qed

lemma trail_records_length:
  assumes a: "trail_records self L P buy tr" and b: "trail_records self L P buy tr'"
  shows "\<not> length tr < length tr'"
proof
  assume lt: "length tr < length tr'"
  let ?k = "length tr - 1"
  from trail_records_nth(2) [OF a] lt
  have k: "?k < length tr" "?k + 1 < length tr'" "?k < length tr'"
    by simp_all
  have nb: "\<not> buy"
    using trail_records_nth(8) [OF a] trail_records_nth(1) [OF b] lt by auto
  have p: "passed (tr' ! ?k)" by (rule trail_records_nth(5) [OF b k(2)])
  have f: "failed (tr ! ?k)" using trail_records_nth(7) [OF a] nb by simp
  have c: "check_of (tr' ! ?k) = check_of (tr ! ?k)"
    using trail_records_nth(3) [OF a k(1)] trail_records_nth(3) [OF b k(3)] by simp
  show False
    by (rule passed_failed_clash [OF p f c trail_records_nth(4) [OF b k(3)]
          trail_records_nth(4) [OF a k(1)]])
qed

text \<open>The rows and the outcome determine the trail.\<close>

lemma trail_records_unique:
  assumes a: "trail_records self L P buy tr" and b: "trail_records self L P buy tr'"
  shows "tr = tr'"
proof (rule nth_equalityI)
  show len: "length tr = length tr'"
    using trail_records_length [OF a b] trail_records_length [OF b a] by simp
  fix i assume i: "i < length tr"
  with len have i': "i < length tr'" by simp
  have c: "check_of (tr ! i) = check_of (tr' ! i)"
    using trail_records_nth(3) [OF a i] trail_records_nth(3) [OF b i'] by simp
  note h = trail_records_nth(4) [OF a i] trail_records_nth(4) [OF b i']
  show "tr ! i = tr' ! i"
  proof (cases "i + 1 < length tr \<or> buy")
    case True
    then have p: "passed (tr ! i)" "passed (tr' ! i)"
    proof -
      have e: "i = length tr - 1" if "\<not> i + 1 < length tr" using that i by simp
      show "passed (tr ! i)"
        using True trail_records_nth(5) [OF a, of i] trail_records_nth(6) [OF a] e by auto
      have e': "i = length tr' - 1" if "\<not> i + 1 < length tr'" using that i' by simp
      show "passed (tr' ! i)"
        using True len trail_records_nth(5) [OF b, of i] trail_records_nth(6) [OF b] e' by auto
    qed
    have n: "tr ! i = Price_near_EMA20 \<longrightarrow>
               \<not> (r_close P < r_ema_slow P \<and> r_close L > r_ema_slow L)"
      "tr' ! i = Price_near_EMA20 \<longrightarrow>
               \<not> (r_close P < r_ema_slow P \<and> r_close L > r_ema_slow L)"
      using trail_records_nth(9) [OF a i] trail_records_nth(9) [OF b i'] by blast+
    show ?thesis by (rule same_check_passed [OF p c h n])
  next
    case False
    then have e: "i = length tr - 1" and nb: "\<not> buy" using i by auto
    have f: "failed (tr ! i)" "failed (tr' ! i)"
      using trail_records_nth(7) [OF a] trail_records_nth(7) [OF b] nb e len by simp_all
    show ?thesis by (rule same_check_failed [OF f c h])
  qed
qed

lemma sell_conditions_cases:
  "sell_conditions self L P sr =
     (if \<exists>r. r_rsi L = Some r \<and> r > RSI_EXIT self
        then (Some Sell, [Extreme_overbought (r_rsi L)])
      else if r_macd P > r_macd_signal P \<and> r_macd L < r_macd_signal L
        then (Some Sell, [MACD_bearish_crossover])
      else if r_close P > r_ema_slow P \<and> r_close L < r_ema_slow L
        then (Some Sell, [Price_crossed_below_EMA50])
      else sr)"
  unfolding sell_conditions_def nan_gt_iff macd_bearish_cross_def ..

lemma sell_conditions_fires:
  "sell_override self L P \<Longrightarrow> fst (sell_conditions self L P sr) = Some Sell"
  unfolding sell_conditions_cases sell_override_def by auto

lemma sell_conditions_silent:
  "\<not> sell_override self L P \<Longrightarrow> sell_conditions self L P sr = sr"
  unfolding sell_conditions_cases sell_override_def by auto

lemma buy_conditions_not_Sell: "fst (buy_conditions self L P) \<noteq> Some Sell"
  by (simp add: buy_conditions_def)

lemma decide_Sell_iff: "signal (decide self L P) = Some Sell \<longleftrightarrow> sell_override self L P"
  using sell_conditions_fires [of self L P] sell_conditions_silent [of self L P]
    buy_conditions_not_Sell [of self L P]
  unfolding decide_signal by metis

lemma decide_Buy_iff:
  "signal (decide self L P) = Some Buy \<longleftrightarrow>
     fst (buy_conditions self L P) = Some Buy \<and> \<not> sell_override self L P"
  using sell_conditions_fires [of self L P "buy_conditions self L P"]
    sell_conditions_silent [of self L P "buy_conditions self L P"]
  unfolding decide_signal by (cases "sell_override self L P") simp_all

section \<open>Series with a flat start\<close>

lemma length_candles_of [simp]: "length (candles_of xs) = length xs"
  by (simp add: candles_of_def)

lemma closes_candles_of: "map close (candles_of xs) = xs"
proof -
  have "map close (candles_of xs) = map snd (zip [0..<length xs] xs)"
    by (simp add: candles_of_def comp_def case_prod_unfold)
  then show ?thesis by simp
qed

lemma volumes_candles_of: "map volume (candles_of xs) = replicate (length xs) 10"
proof -
  have "map volume (candles_of xs) = map (\<lambda>_. 10) (zip [0..<length xs] xs)"
    by (simp add: candles_of_def comp_def case_prod_unfold)
  then show ?thesis by (simp add: map_replicate_const)
qed

lemma candles_of_nth:
  "i < length xs \<Longrightarrow> candles_of xs ! i =
     \<lparr>timestamp = 60000 * int i, open_price = xs ! i, high = xs ! i, low = xs ! i,
      close = xs ! i, volume = 10\<rparr>"
  by (simp add: candles_of_def)

lemma ewm_from_flat: "ewm_from \<alpha> c (replicate n c @ ys) = replicate n c @ ewm_from \<alpha> c ys"
  by (induction n) (simp_all add: Let_def algebra_simps)

lemma ewm_mean_flat:
  "ewm_mean p (replicate (Suc n) c @ ys) = replicate (Suc n) c @ ewm_from (2 / (real p + 1)) c ys"
  using ewm_from_flat [of "2 / (real p + 1)" c n ys] by simp

lemma ewm_from_two:
  "ewm_from \<alpha> y [a, b] =
     [(1 - \<alpha>) * y + \<alpha> * a, (1 - \<alpha>) * ((1 - \<alpha>) * y + \<alpha> * a) + \<alpha> * b]"
  by (simp add: Let_def)

lemma diff_Cons: "ys \<noteq> [] \<Longrightarrow> diff (a # ys) = None # Some (hd ys - a) # tl (diff ys)"
  by (cases ys) (simp_all add: diff_def)

lemma diff_flat2:
  "diff (replicate n c @ [c, x1, x2]) =
     None # replicate n (Some 0) @ [Some (x1 - c), Some (x2 - x1)]"
proof (induction n)
  case 0
  show ?case by (simp add: diff_def)
next
  case (Suc n)
  have "diff (replicate (Suc n) c @ [c, x1, x2]) = diff (c # (replicate n c @ [c, x1, x2]))"
    by simp
  also have "\<dots> = None # Some (hd (replicate n c @ [c, x1, x2]) - c)
                      # tl (diff (replicate n c @ [c, x1, x2]))"
    by (rule diff_Cons) simp
  also have "hd (replicate n c @ [c, x1, x2]) = c" by (cases n) simp_all
  finally show ?case using Suc.IH by simp
qed

lemma length_diff [simp]: "length (diff xs) = length xs"
  by (cases xs) (simp_all add: diff_def)

lemma length_rolling_mean [simp]: "length (rolling_mean w xs) = length xs"
  by (simp add: rolling_mean_def)

lemma rolling_mean_nth:
  "t < length xs \<Longrightarrow> rolling_mean w xs ! t =
     (if w = 0 \<or> t + 1 < w then None
      else Some (sum_list (take w (drop (t + 1 - w) xs)) / real w))"
  by (simp add: rolling_mean_def)

lemma calculate_rsi_nth:
  "t < length xs \<Longrightarrow> calculate_rsi xs p ! t =
     rsi_value (rolling_mean p (map gain_of (diff xs)) ! t)
               (rolling_mean p (map loss_of (diff xs)) ! t)"
  by (simp add: calculate_rsi_def Let_def)

lemma gain_of_simps: "gain_of None = 0" "gain_of (Some 0) = 0"
  by (simp_all add: gain_of_def)

lemma loss_of_simps: "loss_of None = 0" "loss_of (Some 0) = 0"
  by (simp_all add: loss_of_def)

lemma replicate_Suc_append: "replicate (Suc n) c @ xs = replicate n c @ c # xs"
  by (simp add: replicate_app_Cons_same)

lemma gains_flat2:
  "map gain_of (diff (replicate (Suc n) c @ [x1, x2])) =
     replicate (Suc n) 0 @ [gain_of (Some (x1 - c)), gain_of (Some (x2 - x1))]"
  unfolding replicate_Suc_append [of n c] diff_flat2 by (simp add: gain_of_simps)

lemma losses_flat2:
  "map loss_of (diff (replicate (Suc n) c @ [x1, x2])) =
     replicate (Suc n) 0 @ [loss_of (Some (x1 - c)), loss_of (Some (x2 - x1))]"
  unfolding replicate_Suc_append [of n c] diff_flat2 by (simp add: loss_of_simps)

lemma window_flat2:
  fixes g1 g2 :: real
  assumes "2 \<le> w" "w \<le> n + 3"
  shows "sum_list (take w (drop (n + 3 - w) (replicate (Suc n) 0 @ [g1, g2]))) = g1 + g2"
proof -
  have "drop (n + 3 - w) (replicate (Suc n) 0 @ [g1, g2]) = replicate (w - 2) 0 @ [g1, g2]"
    using assms by (simp del: replicate_Suc replicate.simps)
  then show ?thesis
    using assms by (simp add: sum_list_replicate del: replicate_Suc replicate.simps)
qed

lemma rolling_flat2:
  fixes g1 g2 :: real
  assumes "2 \<le> w" "w \<le> n + 3"
  shows "rolling_mean w (replicate (Suc n) 0 @ [g1, g2]) ! (n + 2) = Some ((g1 + g2) / real w)"
proof -
  have "rolling_mean w (replicate (Suc n) 0 @ [g1, g2]) ! (n + 2) =
        Some (sum_list (take w (drop (n + 2 + 1 - w) (replicate (Suc n) 0 @ [g1, g2]))) / real w)"
    using assms by (subst rolling_mean_nth) (simp_all del: replicate_Suc replicate.simps)
  also have "n + 2 + 1 - w = n + 3 - w" by simp
  finally show ?thesis using window_flat2 [OF assms] by simp
qed

lemma rsi_flat2:
  assumes "2 \<le> p" "p \<le> n + 3"
  shows "calculate_rsi (replicate (Suc n) c @ [x1, x2]) p ! (n + 2) =
     rsi_value (Some ((gain_of (Some (x1 - c)) + gain_of (Some (x2 - x1))) / real p))
               (Some ((loss_of (Some (x1 - c)) + loss_of (Some (x2 - x1))) / real p))"
proof -
  have "calculate_rsi (replicate (Suc n) c @ [x1, x2]) p ! (n + 2) =
     rsi_value (rolling_mean p (map gain_of (diff (replicate (Suc n) c @ [x1, x2]))) ! (n + 2))
               (rolling_mean p (map loss_of (diff (replicate (Suc n) c @ [x1, x2]))) ! (n + 2))"
    by (rule calculate_rsi_nth) simp
  then show ?thesis
    unfolding gains_flat2 losses_flat2 rolling_flat2 [OF assms] .
qed

lemma rolling_const:
  fixes v :: real
  assumes "1 \<le> w" "w \<le> t + 1" "t < N"
  shows "rolling_mean w (replicate N v) ! t = Some v"
proof -
  have "take w (drop (t + 1 - w) (replicate N v)) = replicate w v"
    using assms by (simp add: min_def)
  then show ?thesis using assms by (simp add: rolling_mean_nth sum_list_replicate)
qed

lemma nth_flat2:
  "(replicate (Suc n) c @ ys) ! (n + 2) = ys ! 1"
  "(replicate (Suc n) c @ ys) ! (n + 1) = ys ! 0"
  by (simp_all add: nth_append del: replicate_Suc replicate.simps)

lemma macd_line_flat2:
  "macd_line_of self (replicate (Suc n) c @ [x1, x2]) =
     replicate (Suc n) 0 @
       [ewm_from (2 / (real (MACD_FAST self) + 1)) c [x1, x2] ! 0 -
        ewm_from (2 / (real (MACD_SLOW self) + 1)) c [x1, x2] ! 0,
        ewm_from (2 / (real (MACD_FAST self) + 1)) c [x1, x2] ! 1 -
        ewm_from (2 / (real (MACD_SLOW self) + 1)) c [x1, x2] ! 1]"
  unfolding macd_line_of_def ewm_mean_flat ewm_from_two
  by (simp add: map_replicate_const del: replicate_Suc replicate.simps)

lemma widened_row_fields:
  "r_close (widened_row self cs i) = close (cs ! i)"
  "r_volume (widened_row self cs i) = volume (cs ! i)"
  "r_ema_trend (widened_row self cs i) = ewm_mean (EMA_TREND self) (map close cs) ! i"
  "r_ema_fast (widened_row self cs i) = ewm_mean (EMA_FAST self) (map close cs) ! i"
  "r_ema_slow (widened_row self cs i) = ewm_mean (EMA_SLOW self) (map close cs) ! i"
  "r_rsi (widened_row self cs i) = calculate_rsi (map close cs) (RSI_PERIOD self) ! i"
  "r_macd (widened_row self cs i) = macd_line_of self (map close cs) ! i"
  "r_macd_signal (widened_row self cs i) =
     ewm_mean (MACD_SIGNAL self) (macd_line_of self (map close cs)) ! i"
  "r_volume_avg (widened_row self cs i) = rolling_mean (VOLUME_PERIOD self) (map volume cs) ! i"
  by (simp_all add: widened_row_def row_at_def Let_def)

lemma ewm_mean_flat2_nth:
  "ewm_mean p (replicate (Suc n) c @ [x1, x2]) ! (n + 2) = ewm_from (2 / (real p + 1)) c [x1, x2] ! 1"
  "ewm_mean p (replicate (Suc n) c @ [x1, x2]) ! (n + 1) = ewm_from (2 / (real p + 1)) c [x1, x2] ! 0"
  unfolding ewm_mean_flat by (rule nth_flat2)+

lemma macd_flat2_nth:
  "macd_line_of self (replicate (Suc n) c @ [x1, x2]) ! (n + 2) =
     ewm_from (2 / (real (MACD_FAST self) + 1)) c [x1, x2] ! 1 -
     ewm_from (2 / (real (MACD_SLOW self) + 1)) c [x1, x2] ! 1"
  "macd_line_of self (replicate (Suc n) c @ [x1, x2]) ! (n + 1) =
     ewm_from (2 / (real (MACD_FAST self) + 1)) c [x1, x2] ! 0 -
     ewm_from (2 / (real (MACD_SLOW self) + 1)) c [x1, x2] ! 0"
  unfolding macd_line_flat2 nth_flat2 by simp_all

lemma macd_signal_flat2_nth:
  "ewm_mean g (macd_line_of self (replicate (Suc n) c @ [x1, x2])) ! (n + 2) =
     ewm_from (2 / (real g + 1)) 0
       [ewm_from (2 / (real (MACD_FAST self) + 1)) c [x1, x2] ! 0 -
        ewm_from (2 / (real (MACD_SLOW self) + 1)) c [x1, x2] ! 0,
        ewm_from (2 / (real (MACD_FAST self) + 1)) c [x1, x2] ! 1 -
        ewm_from (2 / (real (MACD_SLOW self) + 1)) c [x1, x2] ! 1] ! 1"
  "ewm_mean g (macd_line_of self (replicate (Suc n) c @ [x1, x2])) ! (n + 1) =
     ewm_from (2 / (real g + 1)) 0
       [ewm_from (2 / (real (MACD_FAST self) + 1)) c [x1, x2] ! 0 -
        ewm_from (2 / (real (MACD_SLOW self) + 1)) c [x1, x2] ! 0,
        ewm_from (2 / (real (MACD_FAST self) + 1)) c [x1, x2] ! 1 -
        ewm_from (2 / (real (MACD_SLOW self) + 1)) c [x1, x2] ! 1] ! 0"
  unfolding macd_line_flat2 ewm_mean_flat by (rule nth_flat2)+

lemma nth_close: "i < length cs \<Longrightarrow> close (cs ! i) = map close cs ! i"
  by simp

lemma nth_volume: "i < length cs \<Longrightarrow> volume (cs ! i) = map volume cs ! i"
  by simp

lemma length_from_closes:
  assumes "map close cs = replicate (Suc n) c @ [x1, x2]"
  shows "length cs = n + 3"
proof -
  have "length cs = length (map close cs)" by simp
  also have "\<dots> = n + 3" unfolding assms by simp
  finally show ?thesis .
qed

text \<open>
  The last row of the widened table when the closes are constant up to the last two
  candles and the volume is constant.
\<close>

lemma last_row_flat2:
  assumes cl: "map close cs = replicate (Suc n) c @ [x1, x2]"
    and vo: "map volume cs = replicate (n + 3) v"
    and rp: "2 \<le> RSI_PERIOD self" "RSI_PERIOD self \<le> n + 3"
    and vp: "1 \<le> VOLUME_PERIOD self" "VOLUME_PERIOD self \<le> n + 3"
  shows "r_close (widened_row self cs (n + 2)) = x2"
    and "r_volume (widened_row self cs (n + 2)) = v"
    and "r_ema_trend (widened_row self cs (n + 2)) =
           ewm_from (2 / (real (EMA_TREND self) + 1)) c [x1, x2] ! 1"
    and "r_ema_fast (widened_row self cs (n + 2)) =
           ewm_from (2 / (real (EMA_FAST self) + 1)) c [x1, x2] ! 1"
    and "r_ema_slow (widened_row self cs (n + 2)) =
           ewm_from (2 / (real (EMA_SLOW self) + 1)) c [x1, x2] ! 1"
    and "r_rsi (widened_row self cs (n + 2)) =
           rsi_value
             (Some ((gain_of (Some (x1 - c)) + gain_of (Some (x2 - x1))) / real (RSI_PERIOD self)))
             (Some ((loss_of (Some (x1 - c)) + loss_of (Some (x2 - x1))) / real (RSI_PERIOD self)))"
    and "r_macd (widened_row self cs (n + 2)) =
           ewm_from (2 / (real (MACD_FAST self) + 1)) c [x1, x2] ! 1 -
           ewm_from (2 / (real (MACD_SLOW self) + 1)) c [x1, x2] ! 1"
    and "r_macd_signal (widened_row self cs (n + 2)) =
           ewm_from (2 / (real (MACD_SIGNAL self) + 1)) 0
             [ewm_from (2 / (real (MACD_FAST self) + 1)) c [x1, x2] ! 0 -
              ewm_from (2 / (real (MACD_SLOW self) + 1)) c [x1, x2] ! 0,
              ewm_from (2 / (real (MACD_FAST self) + 1)) c [x1, x2] ! 1 -
              ewm_from (2 / (real (MACD_SLOW self) + 1)) c [x1, x2] ! 1] ! 1"
    and "r_volume_avg (widened_row self cs (n + 2)) = Some v"
proof -
  have i: "n + 2 < length cs" using length_from_closes [OF cl] by simp
  show "r_close (widened_row self cs (n + 2)) = x2"
    unfolding widened_row_fields nth_close [OF i] cl nth_flat2 by simp
  show "r_volume (widened_row self cs (n + 2)) = v"
    unfolding widened_row_fields nth_volume [OF i] vo by simp
  show "r_ema_trend (widened_row self cs (n + 2)) =
           ewm_from (2 / (real (EMA_TREND self) + 1)) c [x1, x2] ! 1"
    unfolding widened_row_fields cl by (rule ewm_mean_flat2_nth)
  show "r_ema_fast (widened_row self cs (n + 2)) =
           ewm_from (2 / (real (EMA_FAST self) + 1)) c [x1, x2] ! 1"
    unfolding widened_row_fields cl by (rule ewm_mean_flat2_nth)
  show "r_ema_slow (widened_row self cs (n + 2)) =
           ewm_from (2 / (real (EMA_SLOW self) + 1)) c [x1, x2] ! 1"
    unfolding widened_row_fields cl by (rule ewm_mean_flat2_nth)
  show "r_rsi (widened_row self cs (n + 2)) =
           rsi_value
             (Some ((gain_of (Some (x1 - c)) + gain_of (Some (x2 - x1))) / real (RSI_PERIOD self)))
             (Some ((loss_of (Some (x1 - c)) + loss_of (Some (x2 - x1))) / real (RSI_PERIOD self)))"
    unfolding widened_row_fields cl by (rule rsi_flat2 [OF rp])
  show "r_macd (widened_row self cs (n + 2)) =
           ewm_from (2 / (real (MACD_FAST self) + 1)) c [x1, x2] ! 1 -
           ewm_from (2 / (real (MACD_SLOW self) + 1)) c [x1, x2] ! 1"
    unfolding widened_row_fields cl by (rule macd_flat2_nth)
  show "r_macd_signal (widened_row self cs (n + 2)) =
           ewm_from (2 / (real (MACD_SIGNAL self) + 1)) 0
             [ewm_from (2 / (real (MACD_FAST self) + 1)) c [x1, x2] ! 0 -
              ewm_from (2 / (real (MACD_SLOW self) + 1)) c [x1, x2] ! 0,
              ewm_from (2 / (real (MACD_FAST self) + 1)) c [x1, x2] ! 1 -
              ewm_from (2 / (real (MACD_SLOW self) + 1)) c [x1, x2] ! 1] ! 1"
    unfolding widened_row_fields cl by (rule macd_signal_flat2_nth)
  show "r_volume_avg (widened_row self cs (n + 2)) = Some v"
    unfolding widened_row_fields vo using vp by (intro rolling_const) simp_all
qed

text \<open>The fields of the previous row that the decision reads.\<close>

lemma prev_row_flat2:
  assumes cl: "map close cs = replicate (Suc n) c @ [x1, x2]"
  shows "r_close (widened_row self cs (n + 1)) = x1"
    and "r_ema_slow (widened_row self cs (n + 1)) =
           ewm_from (2 / (real (EMA_SLOW self) + 1)) c [x1, x2] ! 0"
    and "r_macd (widened_row self cs (n + 1)) =
           ewm_from (2 / (real (MACD_FAST self) + 1)) c [x1, x2] ! 0 -
           ewm_from (2 / (real (MACD_SLOW self) + 1)) c [x1, x2] ! 0"
    and "r_macd_signal (widened_row self cs (n + 1)) =
           ewm_from (2 / (real (MACD_SIGNAL self) + 1)) 0
             [ewm_from (2 / (real (MACD_FAST self) + 1)) c [x1, x2] ! 0 -
              ewm_from (2 / (real (MACD_SLOW self) + 1)) c [x1, x2] ! 0,
              ewm_from (2 / (real (MACD_FAST self) + 1)) c [x1, x2] ! 1 -
              ewm_from (2 / (real (MACD_SLOW self) + 1)) c [x1, x2] ! 1] ! 0"
proof -
  have i: "n + 1 < length cs" using length_from_closes [OF cl] by simp
  show "r_close (widened_row self cs (n + 1)) = x1"
    unfolding widened_row_fields nth_close [OF i] cl nth_flat2 by simp
  show "r_ema_slow (widened_row self cs (n + 1)) =
           ewm_from (2 / (real (EMA_SLOW self) + 1)) c [x1, x2] ! 0"
    unfolding widened_row_fields cl by (rule ewm_mean_flat2_nth)
  show "r_macd (widened_row self cs (n + 1)) =
           ewm_from (2 / (real (MACD_FAST self) + 1)) c [x1, x2] ! 0 -
           ewm_from (2 / (real (MACD_SLOW self) + 1)) c [x1, x2] ! 0"
    unfolding widened_row_fields cl by (rule macd_flat2_nth)
  show "r_macd_signal (widened_row self cs (n + 1)) =
           ewm_from (2 / (real (MACD_SIGNAL self) + 1)) 0
             [ewm_from (2 / (real (MACD_FAST self) + 1)) c [x1, x2] ! 0 -
              ewm_from (2 / (real (MACD_SLOW self) + 1)) c [x1, x2] ! 0,
              ewm_from (2 / (real (MACD_FAST self) + 1)) c [x1, x2] ! 1 -
              ewm_from (2 / (real (MACD_SLOW self) + 1)) c [x1, x2] ! 1] ! 0"
    unfolding widened_row_fields cl by (rule macd_signal_flat2_nth)
qed

section \<open>The example frames\<close>

lemma Config_periods:
  "2 \<le> RSI_PERIOD Config" "RSI_PERIOD Config \<le> 197 + 3" "RSI_PERIOD Config \<le> 198 + 3"
  "1 \<le> VOLUME_PERIOD Config" "VOLUME_PERIOD Config \<le> 197 + 3" "VOLUME_PERIOD Config \<le> 198 + 3"
  by (simp_all add: Config_def)

lemma buy_frame_shape:
  "map close (rows buy_frame) = replicate (Suc 198) 100 @ [99.9, 100.1]"
  "map volume (rows buy_frame) = replicate (198 + 3) 10"
  "length (rows buy_frame) = 201"
  by (simp_all add: buy_frame_def DataFrame_def closes_candles_of volumes_candles_of)

lemma sell_frame_shape:
  "map close (rows sell_frame) = replicate (Suc 197) 100 @ [101, 97]"
  "map volume (rows sell_frame) = replicate (197 + 3) 10"
  "length (rows sell_frame) = 200"
  by (simp_all add: sell_frame_def DataFrame_def closes_candles_of volumes_candles_of)

lemma flat_frame_shape:
  "map close (rows flat_frame) = replicate (Suc 197) 94 @ [94, 94]"
  "map volume (rows flat_frame) = replicate (197 + 3) 10"
  "length (rows flat_frame) = 200"
  by (simp_all add: flat_frame_def DataFrame_def closes_candles_of volumes_candles_of)

lemma wait_frame_shape:
  "map close (rows wait_frame) = replicate (Suc 197) 100 @ [101, 100.5]"
  "map volume (rows wait_frame) = replicate (197 + 3) 10"
  "length (rows wait_frame) = 200"
  by (simp_all add: wait_frame_def DataFrame_def closes_candles_of volumes_candles_of)

lemma example_indices:
  "(198::nat) + 2 = 200" "(198::nat) + 1 = 199" "(197::nat) + 2 = 199" "(197::nat) + 1 = 198"
  by simp_all

lemmas buy_last =
  last_row_flat2 [OF buy_frame_shape(1,2) Config_periods(1,3,4,6), unfolded example_indices]
lemmas buy_prev = prev_row_flat2 [OF buy_frame_shape(1), of Config, unfolded example_indices]
lemmas sell_last =
  last_row_flat2 [OF sell_frame_shape(1,2) Config_periods(1,2,4,5), unfolded example_indices]
lemmas sell_prev = prev_row_flat2 [OF sell_frame_shape(1), of Config, unfolded example_indices]
lemmas flat_last =
  last_row_flat2 [OF flat_frame_shape(1,2) Config_periods(1,2,4,5), unfolded example_indices]
lemmas flat_prev = prev_row_flat2 [OF flat_frame_shape(1), of Config, unfolded example_indices]

lemmas wait_last =
  last_row_flat2 [OF wait_frame_shape(1,2) Config_periods(1,2,4,5), unfolded example_indices]
lemmas wait_prev = prev_row_flat2 [OF wait_frame_shape(1), of Config, unfolded example_indices]

lemmas decide_defs = decide_def sell_conditions_def buy_conditions_def
  trend_of_def nan_between_def nan_gt_def macd_bullish_cross_def macd_bearish_cross_def
  volume_confirmed_of_def price_cross_above_ema50_def price_bounce_ema20_def

lemmas eval_simps = Config_def rsi_value_def gain_of_def loss_of_def Let_def

lemma buy_analysis_eval:
  "buy_analysis =
     \<lparr>signal = Some Buy, price = 1001 / 10, rsi = Some (200 / 3), macd = 224 / 123201,
      trend = Uptrend, volume_confirmed = True, volume_ratio = 1,
      ema_trend = 20200502 / 202005, ema_slow = 1300502 / 13005, ema_fast = 220502 / 2205,
      reason = Joined [Uptrend_ok, RSI_healthy (Some (200 / 3)), MACD_bullish_cross,
                       Volume_confirmed 10 (Some 10), Price_crossed_above_EMA50]\<rparr>"
  unfolding buy_analysis_def decide_defs buy_last buy_prev
  by (simp add: eval_simps)

lemma sell_analysis_eval:
  "sell_analysis =
     \<lparr>signal = Some Sell, price = 97, rsi = Some 20, macd = - (21896 / 123201),
      trend = Downtrend, volume_confirmed = True, volume_ratio = 1,
      ema_trend = 4039292 / 40401, ema_slow = 259892 / 2601, ema_fast = 44012 / 441,
      reason = Joined [MACD_bearish_crossover]\<rparr>"
  unfolding sell_analysis_def decide_defs sell_last sell_prev
  by (simp add: eval_simps)

lemma flat_analysis_eval:
  "flat_analysis =
     \<lparr>signal = None, price = 94, rsi = None, macd = 0,
      trend = Downtrend, volume_confirmed = True, volume_ratio = 1,
      ema_trend = 94, ema_slow = 94, ema_fast = 94,
      reason = Joined [Downtrend_price_below_EMA200]\<rparr>"
  unfolding flat_analysis_def decide_defs flat_last flat_prev
  by (simp add: eval_simps)

lemma wait_analysis_eval:
  "wait_analysis =
     \<lparr>signal = None, price = 201 / 2, rsi = Some (200 / 3), macd = 12502 / 123201,
      trend = Uptrend, volume_confirmed = True, volume_ratio = 1,
      ema_trend = 4040699 / 40401, ema_slow = 260249 / 2601, ema_fast = 44159 / 441,
      reason = Joined [Uptrend_ok, RSI_healthy (Some (200 / 3)), No_MACD_bullish_cross]\<rparr>"
  unfolding wait_analysis_def decide_defs wait_last wait_prev
  by (simp add: eval_simps)

lemma analyze_examples:
  "analyze Config buy_frame = (Inr (Analysis buy_analysis), with_indicators Config buy_frame)"
  "analyze Config sell_frame = (Inr (Analysis sell_analysis), with_indicators Config sell_frame)"
  "analyze Config flat_frame = (Inr (Analysis flat_analysis), with_indicators Config flat_frame)"
  "analyze Config wait_frame = (Inr (Analysis wait_analysis), with_indicators Config wait_frame)"
  using analyze_sufficient [OF valid_spans_Config, of buy_frame]
    analyze_sufficient [OF valid_spans_Config, of sell_frame]
    analyze_sufficient [OF valid_spans_Config, of flat_frame]
    analyze_sufficient [OF valid_spans_Config, of wait_frame]
  by (simp_all add: threshold_Config buy_frame_shape sell_frame_shape flat_frame_shape
      wait_frame_shape buy_analysis_def sell_analysis_def flat_analysis_def wait_analysis_def)

section \<open>Buy signal\<close>

text \<open>
  C3.  On a sufficient candle series (and with spans that pandas accepts) \<open>analyze\<close>
  returns the full dict, and its signal is buy exactly when the trend is uptrend, the RSI
  is a number within [rsi_min, rsi_max], the MACD crossed its signal line upwards
  between the previous and the last candle, the volume is above volume_avg times the
  multiplier, the price crossed above the slow EMA or lies within 0.5% of the fast EMA,
  and none of the three sell conditions holds.  When no sell condition holds, the reason
  is the trail of the buy block, and it records which sub-conditions passed or failed:
  its entries report on the checks trend, RSI, MACD cross, volume, EMA entry in this
  order, from the first check on and without a gap; every entry is true of the two rows;
  all entries but the last are passed checks; the last one is a passed check exactly when
  the signal is buy, and then all five checks are recorded, and a failed check otherwise
  (so the trail stops at the first check that fails); the EMA entry is recorded as
  "near EMA20" only when the price did not cross the slow EMA.  The configured
  multiplier is 0.5.
\<close>

theorem buy_signal_iff:
  assumes "valid_spans self" and "2 \<le> length (rows df)"
    and "max (EMA_TREND self) (MACD_SLOW self) \<le> length (rows df)"
    and "L = widened_row self (rows df) (length (rows df) - 1)"
    and "P = widened_row self (rows df) (length (rows df) - 2)"
  shows "\<exists>a. fst (analyze self df) = Inr (Analysis a) \<and>
     (signal a = Some Buy \<longleftrightarrow>
        trend a = Uptrend \<and>
        (\<exists>r. rsi a = Some r \<and> RSI_MIN self \<le> r \<and> r \<le> RSI_MAX self) \<and>
        (r_macd P < r_macd_signal P \<and> r_macd L > r_macd_signal L) \<and>
        volume_confirmed a \<and>
        ((r_close P < r_ema_slow P \<and> r_close L > r_ema_slow L) \<or>
         (price a \<noteq> 0 \<and> \<bar>price a - ema_fast a\<bar> / price a < 0.005)) \<and>
        \<not> sell_override self L P) \<and>
     (trend a = Uptrend \<longleftrightarrow> price a > ema_trend a) \<and>
     (volume_confirmed a \<longleftrightarrow>
        (\<exists>va. r_volume_avg L = Some va \<and> r_volume L > va * VOLUME_MULTIPLIER self)) \<and>
     price a = r_close L \<and> rsi a = r_rsi L \<and>
     ema_trend a = r_ema_trend L \<and> ema_fast a = r_ema_fast L \<and>
     (\<not> sell_override self L P \<longrightarrow>
        (\<exists>tr. reason a = Joined tr \<and> tr \<noteq> [] \<and>
           map check_of tr = take (length tr) buy_checks \<and>
           list_all (item_holds self L P) tr \<and> list_all passed (butlast tr) \<and>
           (passed (last tr) \<longleftrightarrow> signal a = Some Buy) \<and>
           (failed (last tr) \<longleftrightarrow> signal a \<noteq> Some Buy) \<and>
           (signal a = Some Buy \<longrightarrow> length tr = length buy_checks) \<and>
           (Price_near_EMA20 \<in> set tr \<longrightarrow>
              \<not> (r_close P < r_ema_slow P \<and> r_close L > r_ema_slow L)))) \<and>
     VOLUME_MULTIPLIER Config = 0.5"
proof -
  let ?a = "decide self L P"
  have an: "fst (analyze self df) = Inr (Analysis ?a)"
    using analyze_sufficient [OF assms(1-3)] assms(4,5) by simp
  have buy: "signal ?a = Some Buy \<longleftrightarrow>
        trend ?a = Uptrend \<and>
        (\<exists>r. rsi ?a = Some r \<and> RSI_MIN self \<le> r \<and> r \<le> RSI_MAX self) \<and>
        (r_macd P < r_macd_signal P \<and> r_macd L > r_macd_signal L) \<and>
        volume_confirmed ?a \<and>
        ((r_close P < r_ema_slow P \<and> r_close L > r_ema_slow L) \<or>
         (price ?a \<noteq> 0 \<and> \<bar>price ?a - ema_fast ?a\<bar> / price ?a < 0.005)) \<and>
        \<not> sell_override self L P"
    unfolding decide_Buy_iff buy_conditions_Buy decide_fields trend_of_Uptrend
      volume_confirmed_of_iff by (simp only: conj_assoc)
  have tr: "trend ?a = Uptrend \<longleftrightarrow> price ?a > ema_trend ?a"
    unfolding decide_fields trend_of_Uptrend ..
  have vc: "volume_confirmed ?a \<longleftrightarrow>
        (\<exists>va. r_volume_avg L = Some va \<and> r_volume L > va * VOLUME_MULTIPLIER self)"
    unfolding decide_fields volume_confirmed_of_iff ..
  have trail: "\<not> sell_override self L P \<longrightarrow>
        (\<exists>tr. reason ?a = Joined tr \<and> tr \<noteq> [] \<and>
           map check_of tr = take (length tr) buy_checks \<and>
           list_all (item_holds self L P) tr \<and> list_all passed (butlast tr) \<and>
           (passed (last tr) \<longleftrightarrow> signal ?a = Some Buy) \<and>
           (failed (last tr) \<longleftrightarrow> signal ?a \<noteq> Some Buy) \<and>
           (signal ?a = Some Buy \<longrightarrow> length tr = length buy_checks) \<and>
           (Price_near_EMA20 \<in> set tr \<longrightarrow>
              \<not> (r_close P < r_ema_slow P \<and> r_close L > r_ema_slow L)))"
  proof
    assume no: "\<not> sell_override self L P"
    have s: "sell_conditions self L P (buy_conditions self L P) = buy_conditions self L P"
      by (rule sell_conditions_silent [OF no])
    show "\<exists>tr. reason ?a = Joined tr \<and> tr \<noteq> [] \<and>
           map check_of tr = take (length tr) buy_checks \<and>
           list_all (item_holds self L P) tr \<and> list_all passed (butlast tr) \<and>
           (passed (last tr) \<longleftrightarrow> signal ?a = Some Buy) \<and>
           (failed (last tr) \<longleftrightarrow> signal ?a \<noteq> Some Buy) \<and>
           (signal ?a = Some Buy \<longrightarrow> length tr = length buy_checks) \<and>
           (Price_near_EMA20 \<in> set tr \<longrightarrow>
              \<not> (r_close P < r_ema_slow P \<and> r_close L > r_ema_slow L))"
      unfolding decide_reason decide_signal s
      using buy_conditions_trail [of self L P] buy_conditions_order [of self L P] by blast
  qed
  have vm: "VOLUME_MULTIPLIER Config = 0.5" by (simp add: Config_def)
  show ?thesis
    using an buy tr vc trail vm decide_fields [of self L P] by blast
qed

theorem buy_signal_iff_witness:
  "valid_spans Config \<and> 2 \<le> length (rows buy_frame) \<and>
   max (EMA_TREND Config) (MACD_SLOW Config) \<le> length (rows buy_frame) \<and>
   fst (analyze Config buy_frame) = Inr (Analysis buy_analysis) \<and>
   signal buy_analysis = Some Buy \<and>
   reason buy_analysis =
     Joined [Uptrend_ok, RSI_healthy (Some (200 / 3)), MACD_bullish_cross,
             Volume_confirmed 10 (Some 10), Price_crossed_above_EMA50] \<and>
   trend buy_analysis = Uptrend \<and>
   (\<exists>r. rsi buy_analysis = Some r \<and> RSI_MIN Config \<le> r \<and> r \<le> RSI_MAX Config) \<and>
   volume_confirmed buy_analysis \<and>
   \<not> sell_override Config (widened_row Config (rows buy_frame) 200)
                           (widened_row Config (rows buy_frame) 199) \<and>
   2 \<le> length (rows wait_frame) \<and>
   max (EMA_TREND Config) (MACD_SLOW Config) \<le> length (rows wait_frame) \<and>
   fst (analyze Config wait_frame) = Inr (Analysis wait_analysis) \<and>
   signal wait_analysis = None \<and>
   reason wait_analysis =
     Joined [Uptrend_ok, RSI_healthy (Some (200 / 3)), No_MACD_bullish_cross] \<and>
   \<not> sell_override Config (widened_row Config (rows wait_frame) 199)
                           (widened_row Config (rows wait_frame) 198) \<and>
   \<not> (r_macd (widened_row Config (rows wait_frame) 198)
         < r_macd_signal (widened_row Config (rows wait_frame) 198) \<and>
       r_macd (widened_row Config (rows wait_frame) 199)
         > r_macd_signal (widened_row Config (rows wait_frame) 199))"
proof -
  have h: "valid_spans Config" "2 \<le> length (rows buy_frame)"
    "max (EMA_TREND Config) (MACD_SLOW Config) \<le> length (rows buy_frame)"
    by (simp_all add: valid_spans_Config threshold_Config buy_frame_shape)
  have i: "widened_row Config (rows buy_frame) 200 =
             widened_row Config (rows buy_frame) (length (rows buy_frame) - 1)"
    "widened_row Config (rows buy_frame) 199 =
             widened_row Config (rows buy_frame) (length (rows buy_frame) - 2)"
    by (simp_all add: buy_frame_shape)
  from buy_signal_iff [OF h i] obtain a where
    a: "fst (analyze Config buy_frame) = Inr (Analysis a)"
    and iff: "signal a = Some Buy \<longleftrightarrow>
        trend a = Uptrend \<and>
        (\<exists>r. rsi a = Some r \<and> RSI_MIN Config \<le> r \<and> r \<le> RSI_MAX Config) \<and>
        (r_macd (widened_row Config (rows buy_frame) 199)
           < r_macd_signal (widened_row Config (rows buy_frame) 199) \<and>
         r_macd (widened_row Config (rows buy_frame) 200)
           > r_macd_signal (widened_row Config (rows buy_frame) 200)) \<and>
        volume_confirmed a \<and>
        ((r_close (widened_row Config (rows buy_frame) 199)
            < r_ema_slow (widened_row Config (rows buy_frame) 199) \<and>
          r_close (widened_row Config (rows buy_frame) 200)
            > r_ema_slow (widened_row Config (rows buy_frame) 200)) \<or>
         (price a \<noteq> 0 \<and> \<bar>price a - ema_fast a\<bar> / price a < 0.005)) \<and>
        \<not> sell_override Config (widened_row Config (rows buy_frame) 200)
                                (widened_row Config (rows buy_frame) 199)"
    by blast
  from a have eq: "a = buy_analysis" by (simp add: analyze_examples)
  have s: "signal buy_analysis = Some Buy" by (simp add: buy_analysis_eval)
  have r: "reason buy_analysis =
     Joined [Uptrend_ok, RSI_healthy (Some (200 / 3)), MACD_bullish_cross,
             Volume_confirmed 10 (Some 10), Price_crossed_above_EMA50]"
    by (simp add: buy_analysis_eval)
  from iff s have b:
    "trend buy_analysis = Uptrend \<and>
     (\<exists>r. rsi buy_analysis = Some r \<and> RSI_MIN Config \<le> r \<and> r \<le> RSI_MAX Config) \<and>
     volume_confirmed buy_analysis \<and>
     \<not> sell_override Config (widened_row Config (rows buy_frame) 200)
                             (widened_row Config (rows buy_frame) 199)"
    unfolding eq by blast
  have hw: "2 \<le> length (rows wait_frame)"
    "max (EMA_TREND Config) (MACD_SLOW Config) \<le> length (rows wait_frame)"
    by (simp_all add: threshold_Config wait_frame_shape)
  have iw: "widened_row Config (rows wait_frame) 199 =
             widened_row Config (rows wait_frame) (length (rows wait_frame) - 1)"
    "widened_row Config (rows wait_frame) 198 =
             widened_row Config (rows wait_frame) (length (rows wait_frame) - 2)"
    by (simp_all add: wait_frame_shape)
  have sw: "signal wait_analysis = None" by (simp add: wait_analysis_eval)
  have rw: "reason wait_analysis =
     Joined [Uptrend_ok, RSI_healthy (Some (200 / 3)), No_MACD_bullish_cross]"
    by (simp add: wait_analysis_eval)
  have nw: "\<not> sell_override Config (widened_row Config (rows wait_frame) 199)
                                   (widened_row Config (rows wait_frame) 198)"
    using decide_Sell_iff [of Config "widened_row Config (rows wait_frame) 199"
        "widened_row Config (rows wait_frame) 198"] sw
    unfolding wait_analysis_def by simp
  from buy_signal_iff [OF h(1) hw iw] nw obtain a' tr where
    a': "fst (analyze Config wait_frame) = Inr (Analysis a')"
    and tr: "reason a' = Joined tr"
      "list_all (item_holds Config (widened_row Config (rows wait_frame) 199)
                   (widened_row Config (rows wait_frame) 198)) tr"
    by blast
  from a' have eq': "a' = wait_analysis" by (simp add: analyze_examples)
  from tr(1) rw have t: "tr = [Uptrend_ok, RSI_healthy (Some (200 / 3)), No_MACD_bullish_cross]"
    unfolding eq' by simp
  from tr(2) have
    "item_holds Config (widened_row Config (rows wait_frame) 199)
       (widened_row Config (rows wait_frame) 198) No_MACD_bullish_cross"
    unfolding t by simp
  then have mw: "\<not> (r_macd (widened_row Config (rows wait_frame) 198)
         < r_macd_signal (widened_row Config (rows wait_frame) 198) \<and>
       r_macd (widened_row Config (rows wait_frame) 199)
         > r_macd_signal (widened_row Config (rows wait_frame) 199))"
    by simp
  show ?thesis
    using h a [unfolded eq] s r b hw a' [unfolded eq'] sw rw nw mw by blast
qed

section \<open>Sell conditions\<close>

text \<open>
  C4.  On a sufficient candle series the signal is sell exactly when one of the three
  sell conditions holds, whatever the buy block found.  They are tried in this order:
  an RSI above rsi_exit gives the reason "Extreme overbought"; otherwise a MACD bearish
  cross gives "MACD bearish crossover"; otherwise the price crossing below the slow EMA
  (prev_close > prev_ema_slow and close < ema_slow) gives "Price crossed below EMA50".
  A buy found by the buy block in the same evaluation is replaced by sell; when no sell
  condition holds, the outcome of the buy block stands.
\<close>

theorem sell_override_priority:
  assumes "valid_spans self" and "2 \<le> length (rows df)"
    and "max (EMA_TREND self) (MACD_SLOW self) \<le> length (rows df)"
    and "L = widened_row self (rows df) (length (rows df) - 1)"
    and "P = widened_row self (rows df) (length (rows df) - 2)"
  shows "\<exists>a. fst (analyze self df) = Inr (Analysis a) \<and>
     (signal a = Some Sell \<longleftrightarrow> sell_override self L P) \<and>
     ((\<exists>r. r_rsi L = Some r \<and> r > RSI_EXIT self) \<longrightarrow>
        signal a = Some Sell \<and> reason a = Joined [Extreme_overbought (r_rsi L)]) \<and>
     (\<not> (\<exists>r. r_rsi L = Some r \<and> r > RSI_EXIT self) \<and>
      (r_macd P > r_macd_signal P \<and> r_macd L < r_macd_signal L) \<longrightarrow>
        signal a = Some Sell \<and> reason a = Joined [MACD_bearish_crossover]) \<and>
     (\<not> (\<exists>r. r_rsi L = Some r \<and> r > RSI_EXIT self) \<and>
      \<not> (r_macd P > r_macd_signal P \<and> r_macd L < r_macd_signal L) \<and>
      (r_close P > r_ema_slow P \<and> r_close L < r_ema_slow L) \<longrightarrow>
        signal a = Some Sell \<and> reason a = Joined [Price_crossed_below_EMA50]) \<and>
     (sell_override self L P \<and> fst (buy_conditions self L P) = Some Buy \<longrightarrow>
        signal a = Some Sell) \<and>
     (\<not> sell_override self L P \<longrightarrow>
        signal a = fst (buy_conditions self L P) \<and>
        reason a = Joined (snd (buy_conditions self L P)))"
proof -
  let ?a = "decide self L P"
  have an: "fst (analyze self df) = Inr (Analysis ?a)"
    using analyze_sufficient [OF assms(1-3)] assms(4,5) by simp
  have 1: "signal ?a = Some Sell \<longleftrightarrow> sell_override self L P"
    by (rule decide_Sell_iff)
  have 2: "(\<exists>r. r_rsi L = Some r \<and> r > RSI_EXIT self) \<longrightarrow>
        signal ?a = Some Sell \<and> reason ?a = Joined [Extreme_overbought (r_rsi L)]"
    unfolding decide_signal decide_reason sell_conditions_cases by simp
  have 3: "\<not> (\<exists>r. r_rsi L = Some r \<and> r > RSI_EXIT self) \<and>
      (r_macd P > r_macd_signal P \<and> r_macd L < r_macd_signal L) \<longrightarrow>
        signal ?a = Some Sell \<and> reason ?a = Joined [MACD_bearish_crossover]"
    unfolding decide_signal decide_reason sell_conditions_cases by simp
  have 4: "\<not> (\<exists>r. r_rsi L = Some r \<and> r > RSI_EXIT self) \<and>
      \<not> (r_macd P > r_macd_signal P \<and> r_macd L < r_macd_signal L) \<and>
      (r_close P > r_ema_slow P \<and> r_close L < r_ema_slow L) \<longrightarrow>
        signal ?a = Some Sell \<and> reason ?a = Joined [Price_crossed_below_EMA50]"
    unfolding decide_signal decide_reason sell_conditions_cases by simp
  have 5: "sell_override self L P \<and> fst (buy_conditions self L P) = Some Buy \<longrightarrow>
        signal ?a = Some Sell"
    using 1 by simp
  have 6: "\<not> sell_override self L P \<longrightarrow>
        signal ?a = fst (buy_conditions self L P) \<and>
        reason ?a = Joined (snd (buy_conditions self L P))"
    unfolding decide_signal decide_reason using sell_conditions_silent [of self L P] by simp
  show ?thesis using an 1 2 3 4 5 6 by blast
qed

theorem sell_override_priority_witness:
  "valid_spans Config \<and> 2 \<le> length (rows sell_frame) \<and>
   max (EMA_TREND Config) (MACD_SLOW Config) \<le> length (rows sell_frame) \<and>
   fst (analyze Config sell_frame) = Inr (Analysis sell_analysis) \<and>
   signal sell_analysis = Some Sell \<and>
   reason sell_analysis = Joined [MACD_bearish_crossover] \<and>
   sell_override Config (widened_row Config (rows sell_frame) 199)
                        (widened_row Config (rows sell_frame) 198) \<and>
   valid_spans small_cfg \<and> 2 \<le> length (rows small_frame) \<and>
   max (EMA_TREND small_cfg) (MACD_SLOW small_cfg) \<le> length (rows small_frame) \<and>
   fst (buy_conditions small_cfg (widened_row small_cfg (rows small_frame) 2)
                                 (widened_row small_cfg (rows small_frame) 1)) = Some Buy \<and>
   (\<exists>a. fst (analyze small_cfg small_frame) = Inr (Analysis a) \<and> signal a = Some Sell \<and>
        reason a = Joined [Extreme_overbought (Some 60)])"
proof -
  have h: "valid_spans Config" "2 \<le> length (rows sell_frame)"
    "max (EMA_TREND Config) (MACD_SLOW Config) \<le> length (rows sell_frame)"
    by (simp_all add: valid_spans_Config threshold_Config sell_frame_shape)
  have i: "widened_row Config (rows sell_frame) 199 =
             widened_row Config (rows sell_frame) (length (rows sell_frame) - 1)"
    "widened_row Config (rows sell_frame) 198 =
             widened_row Config (rows sell_frame) (length (rows sell_frame) - 2)"
    by (simp_all add: sell_frame_shape)
  from sell_override_priority [OF h i] obtain a where
    a: "fst (analyze Config sell_frame) = Inr (Analysis a)"
    and iff: "signal a = Some Sell \<longleftrightarrow>
                sell_override Config (widened_row Config (rows sell_frame) 199)
                                     (widened_row Config (rows sell_frame) 198)"
    by blast
  from a have eq: "a = sell_analysis" by (simp add: analyze_examples)
  have s: "signal sell_analysis = Some Sell"
    and r: "reason sell_analysis = Joined [MACD_bearish_crossover]"
    by (simp_all add: sell_analysis_eval)
  from iff s have ov: "sell_override Config (widened_row Config (rows sell_frame) 199)
                                            (widened_row Config (rows sell_frame) 198)"
    unfolding eq by simp
  have len: "length (rows small_frame) = 3"
    by (simp add: small_frame_def DataFrame_def)
  have h': "valid_spans small_cfg" "2 \<le> length (rows small_frame)"
    "max (EMA_TREND small_cfg) (MACD_SLOW small_cfg) \<le> length (rows small_frame)"
    by (simp_all add: len) (simp_all add: valid_spans_def small_cfg_def)
  have i': "widened_row small_cfg (rows small_frame) 2 =
             widened_row small_cfg (rows small_frame) (length (rows small_frame) - 1)"
    "widened_row small_cfg (rows small_frame) 1 =
             widened_row small_cfg (rows small_frame) (length (rows small_frame) - 2)"
    by (simp_all add: len)
  have rsi60: "r_rsi (widened_row small_cfg (rows small_frame) 2) = Some 60"
    by code_simp
  have buy: "fst (buy_conditions small_cfg (widened_row small_cfg (rows small_frame) 2)
                                 (widened_row small_cfg (rows small_frame) 1)) = Some Buy"
    by code_simp
  have ex: "RSI_EXIT small_cfg = 50" by (simp add: small_cfg_def)
  from sell_override_priority [OF h' i'] obtain a' where
    a': "fst (analyze small_cfg small_frame) = Inr (Analysis a')"
    and first: "(\<exists>r. r_rsi (widened_row small_cfg (rows small_frame) 2) = Some r \<and>
                    r > RSI_EXIT small_cfg) \<longrightarrow>
        signal a' = Some Sell \<and>
        reason a' = Joined [Extreme_overbought (r_rsi (widened_row small_cfg (rows small_frame) 2))]"
    by blast
  from first rsi60 ex have "signal a' = Some Sell \<and> reason a' = Joined [Extreme_overbought (Some 60)]"
    by simp
  with a' have small: "\<exists>a. fst (analyze small_cfg small_frame) = Inr (Analysis a) \<and>
        signal a = Some Sell \<and> reason a = Joined [Extreme_overbought (Some 60)]"
    by blast
  from h a s r ov h' buy small show ?thesis unfolding eq by blast
qed

section \<open>The replay window\<close>

lemma window_rows_length: "length (rows (window df i)) \<le> 101"
  by (simp add: window_def iloc_slice_def)

lemma window_insufficient: "analyze Config (window df i) = (Inr Insufficient, window df i)"
  using window_rows_length [of df i]
  by (intro analyze_insufficient) (simp add: threshold_Config)

lemma backtest_step_Config:
  assumes "bt_strategy self = Config"
  shows "backtest_step self df i =
           Inr (let self1 = check_stop_loss_take_profit self (rows df ! i);
                    current_equity =
                      (case bt_position self1 of
                         Some pos \<Rightarrow> capital self1 +
                           (close (rows df ! i) - p_entry_price pos) * p_amount_btc pos
                       | None \<Rightarrow> capital self1)
                in self1\<lparr>equity_curve :=
                     equity_curve self1 @ [(timestamp (rows df ! i), current_equity)]\<rparr>)"
  by (simp add: backtest_step_def assms window_insufficient Let_def)

lemma backtest_step_flat:
  assumes "bt_strategy self = Config" "bt_position self = None"
  shows "backtest_step self df i =
           Inr (self\<lparr>equity_curve := equity_curve self @ [(timestamp (rows df ! i), capital self)]\<rparr>)"
  by (simp add: backtest_step_Config [OF assms(1)] check_stop_loss_take_profit_def assms(2))

lemma replay_flat:
  assumes "bt_strategy self = Config" "bt_position self = None"
  shows "replay self df js =
           Inr (self\<lparr>equity_curve :=
                  equity_curve self @ map (\<lambda>i. (timestamp (rows df ! i), capital self)) js\<rparr>)"
  using assms
proof (induction js arbitrary: self)
  case Nil
  then show ?case by simp
next
  case (Cons j js)
  let ?s = "self\<lparr>equity_curve := equity_curve self @ [(timestamp (rows df ! j), capital self)]\<rparr>"
  have "replay self df (j # js) = replay ?s df js"
    by (simp add: backtest_step_flat [OF Cons.prems])
  also have "\<dots> = Inr (?s\<lparr>equity_curve :=
                  equity_curve ?s @ map (\<lambda>i. (timestamp (rows df ! i), capital ?s)) js\<rparr>)"
    by (rule Cons.IH) (simp_all add: Cons.prems)
  finally show ?case by simp
qed

text \<open>
  Whatever the historical data, the replay of a fresh \<open>Backtester\<close> sees no signal:
  it ends with no trade and no position, and there is no report.
\<close>

lemma run_backtest_never_trades:
  "run_backtest Backtester_init (Some df) =
     Inr (Backtester_init\<lparr>equity_curve :=
            map (\<lambda>i. (timestamp (rows df ! i), 10000)) [200..<length (rows df)]\<rparr>, None)"
proof -
  have "replay Backtester_init df [200..<length (rows df)] =
          Inr (Backtester_init\<lparr>equity_curve := equity_curve Backtester_init @
                 map (\<lambda>i. (timestamp (rows df ! i), capital Backtester_init))
                     [200..<length (rows df)]\<rparr>)"
    by (rule replay_flat) (simp_all add: Backtester_init_def)
  then show ?thesis
    by (simp add: run_backtest_def generate_report_def Backtester_init_def)
qed

lemma buy_frame_full_history: "DataFrame (take (200 + 1) (rows buy_frame)) = buy_frame"
  by (simp add: buy_frame_def DataFrame_def)

lemma buy_frame_row_200: "timestamp (rows buy_frame ! 200) = 12000000"
  by (simp add: buy_frame_def DataFrame_def candles_of_nth)

text \<open>
  C1.  At candle 200 of the 201-candle frame \<open>buy_frame\<close> the replay analyses the
  window \<open>df.iloc[100:201]\<close>.  It has 101 rows, fewer than the 200 that \<open>analyze\<close>
  requires, so the replay gets the insufficient-data dict and no signal, whereas
  \<open>analyze\<close> on the candles 0 to 200 returns the signal buy.  The replay of the frame
  ends without a trade, a position or a report.
\<close>

theorem replay_window_insufficient:
  "length (rows (window buy_frame 200)) = 101 \<and>
   fst (analyze Config (window buy_frame 200)) = Inr Insufficient \<and>
   get_signal Insufficient = None \<and>
   fst (analyze Config (DataFrame (take (200 + 1) (rows buy_frame)))) = Inr (Analysis buy_analysis) \<and>
   get_signal (Analysis buy_analysis) = Some Buy \<and>
   run_backtest Backtester_init (Some buy_frame) =
     Inr (Backtester_init\<lparr>equity_curve := [(12000000, 10000)]\<rparr>, None)"
proof -
  have 1: "length (rows (window buy_frame 200)) = 101"
    by (simp add: window_def iloc_slice_def buy_frame_shape)
  have 2: "fst (analyze Config (window buy_frame 200)) = Inr Insufficient"
    by (simp add: window_insufficient)
  have 3: "fst (analyze Config (DataFrame (take (200 + 1) (rows buy_frame)))) =
             Inr (Analysis buy_analysis)"
    unfolding buy_frame_full_history by (simp add: analyze_examples)
  have 4: "get_signal (Analysis buy_analysis) = Some Buy"
    by (simp add: buy_analysis_eval)
  have 5: "run_backtest Backtester_init (Some buy_frame) =
     Inr (Backtester_init\<lparr>equity_curve := [(12000000, 10000)]\<rparr>, None)"
    unfolding run_backtest_never_trades
    by (simp add: buy_frame_shape buy_frame_row_200)
  from 1 2 3 4 5 show ?thesis by simp
qed

section \<open>Order of the exit checks\<close>

text \<open>
  In the replay a candle that reaches the stop-loss or the take-profit closes the position
  before the signal is applied: the trade it records is never a signal exit.
\<close>

lemma replay_checks_sl_tp_first:
  assumes "bt_position self = Some pos" "low c \<le> p_sl pos \<or> p_tp pos \<le> high c"
  shows "\<exists>t. trades (simulate_trade (check_stop_loss_take_profit self c) sg p ts an)
               = trades self @ [t] \<and>
             t_exit_reason t \<noteq> Exit_signal"
  using assms
  by (cases "low c \<le> p_sl pos")
     (auto simp: check_stop_loss_take_profit_def simulate_trade_def Let_def)

lemma get_open_position_open_db:
  "get_open_position (open_db sl tp) ''BTC/USDT'' =
     Some \<lparr>lp_symbol = ''BTC/USDT'', lp_type = Buy, lp_entry_price = 100, lp_amount = 0.001,
           lp_sl = sl, lp_tp = tp, lp_id = Some 1\<rparr>"
  by (simp add: get_open_position_def open_db_def)

lemma run_analysis_examples:
  assumes "tr_strategy self = Config"
  shows "run_analysis self buy_frame ord =
           act_on (self\<lparr>latest_analysis := Some (Analysis buy_analysis)\<rparr>) (Analysis buy_analysis) ord"
    and "run_analysis self sell_frame ord =
           act_on (self\<lparr>latest_analysis := Some (Analysis sell_analysis)\<rparr>) (Analysis sell_analysis) ord"
    and "run_analysis self flat_frame ord =
           act_on (self\<lparr>latest_analysis := Some (Analysis flat_analysis)\<rparr>) (Analysis flat_analysis) ord"
proof -
  have ne: "rows buy_frame \<noteq> []" "rows sell_frame \<noteq> []" "rows flat_frame \<noteq> []"
    using buy_frame_shape(3) sell_frame_shape(3) flat_frame_shape(3) by auto
  show "run_analysis self buy_frame ord =
           act_on (self\<lparr>latest_analysis := Some (Analysis buy_analysis)\<rparr>) (Analysis buy_analysis) ord"
    and "run_analysis self sell_frame ord =
           act_on (self\<lparr>latest_analysis := Some (Analysis sell_analysis)\<rparr>) (Analysis sell_analysis) ord"
    and "run_analysis self flat_frame ord =
           act_on (self\<lparr>latest_analysis := Some (Analysis flat_analysis)\<rparr>) (Analysis flat_analysis) ord"
    by (simp_all add: run_analysis_def ne assms analyze_examples)
qed

lemma Trader_init_strategy: "tr_strategy (Trader_init db) = Config"
  by (simp add: Trader_init_def)

lemmas live_examples = run_analysis_examples [OF Trader_init_strategy]

lemma Trader_init_open_db:
  "tr_position (Trader_init (open_db sl tp)) =
     Some \<lparr>lp_symbol = ''BTC/USDT'', lp_type = Buy, lp_entry_price = 100, lp_amount = 0.001,
           lp_sl = sl, lp_tp = tp, lp_id = Some 1\<rparr>"
  "tr_storage (Trader_init db) = db"
  "tr_position (Trader_init []) = None"
  by (simp_all add: Trader_init_def get_open_position_open_db)
     (simp add: get_open_position_def)

text \<open>
  C2.  A live trader holds the position of \<open>open_db 98 105\<close> (entry 100, stop-loss 98,
  take-profit 105).  The fetched frame \<open>sell_frame\<close> ends at the price 97, below the
  stop-loss, and its analysis is a sell signal.  \<open>run_analysis\<close> closes the position
  with the reason "Signal": the signal is acted on before the stop-loss is looked at.
\<close>

theorem live_signal_exit_precedes_stop_loss:
  "map_option lp_sl (tr_position (Trader_init (open_db 98 105))) = Some 98 \<and>
   get_signal (Analysis sell_analysis) = Some Sell \<and>
   get_price (Analysis sell_analysis) = Some 97 \<and>
   run_analysis (Trader_init (open_db 98 105)) sell_frame (Some Order) =
     (Inr (Some (Action_sell 97 Signal)),
      (Trader_init (open_db 98 105))
        \<lparr>tr_storage := close_trade (open_db 98 105) (Some 1) 97,
         tr_position := None,
         latest_analysis := Some (Analysis sell_analysis)\<rparr>)"
  unfolding live_examples
  by (simp add: act_on_def close_position_def Let_def Trader_init_open_db sell_analysis_eval)

section \<open>Stop-loss exit\<close>








section \<open>Failed orders\<close>

lemma open_position_failed: "open_position self side p None = (None, self)"
  by (simp add: open_position_def Let_def)

lemma close_position_failed: "close_position self p why None = (None, self)"
  by (simp add: close_position_def split: option.splits)

lemma close_position_flat:
  "tr_position self = None \<Longrightarrow> close_position self p why ord = (None, self)"
  by (simp add: close_position_def)

lemma act_on_failed:
  "snd (act_on self an None) = self \<and>
   (fst (act_on self an None) = Inr None \<or> fst (act_on self an None) = Inl TypeError)"
  by (auto simp: act_on_def open_position_failed close_position_failed Let_def
      split: analysis_result.splits option.splits)

lemma act_on_Analysis_failed: "act_on self (Analysis a) None = (Inr None, self)"
  by (simp add: act_on_def open_position_failed close_position_failed Let_def
      split: option.splits)

lemma run_analysis_failed:
  "tr_position (snd (run_analysis self df None)) = tr_position self \<and>
   tr_storage (snd (run_analysis self df None)) = tr_storage self \<and>
   (fst (run_analysis self df None) = Inr None \<or>
    (\<exists>e. fst (run_analysis self df None) = Inl e))"
proof (cases "rows df = []")
  case True
  then show ?thesis by (simp add: run_analysis_def)
next
  case False
  show ?thesis
  proof (cases "fst (analyze (tr_strategy self) df)")
    case (Inl e)
    with False show ?thesis by (simp add: run_analysis_def)
  next
    case (Inr an)
    with False have r: "run_analysis self df None =
        act_on (self\<lparr>latest_analysis := Some an\<rparr>) an None"
      by (simp add: run_analysis_def)
    show ?thesis
      unfolding r using act_on_failed [of "self\<lparr>latest_analysis := Some an\<rparr>" an] by auto
  qed
qed

lemma run_analysis_Analysis:
  assumes "fst (analyze (tr_strategy self) df) = Inr (Analysis a)"
  shows "run_analysis self df ord =
           act_on (self\<lparr>latest_analysis := Some (Analysis a)\<rparr>) (Analysis a) ord"
proof -
  from analyze_Analysis(3) [OF assms] have "rows df \<noteq> []" by auto
  with assms show ?thesis by (simp add: run_analysis_def)
qed

text \<open>
  C7 as stated does not hold: the failure is not surfaced.  A flat trader gets a buy
  signal (\<open>buy_frame\<close>) and the exchange returns no order: \<open>run_analysis\<close> returns
  \<open>None\<close>, which is also what it returns on a tick without any signal
  (\<open>flat_frame\<close>) where no order was attempted.
\<close>

theorem failed_open_returns_as_idle_tick:
  "tr_position (Trader_init []) = None \<and>
   get_signal (Analysis buy_analysis) = Some Buy \<and>
   get_signal (Analysis flat_analysis) = None \<and>
   fst (run_analysis (Trader_init []) buy_frame None) = Inr None \<and>
   fst (run_analysis (Trader_init []) flat_frame (Some Order)) = Inr None \<and>
   fst (run_analysis (Trader_init []) buy_frame None) =
     fst (run_analysis (Trader_init []) flat_frame (Some Order))"
  unfolding live_examples
  by (simp add: act_on_def open_position_failed Trader_init_open_db
      buy_analysis_eval flat_analysis_eval)

text \<open>
  C7, as amended.  When \<open>create_order\<close> returns no order, \<open>open_position\<close> and
  \<open>close_position\<close> return \<open>None\<close> and leave the trader as it was: after a failed
  open there is no position and nothing was saved, after a failed close the position is
  still open and unchanged.  \<open>run_analysis\<close> then keeps the position and the stored
  trades, and the failure is not surfaced by it: on a full analysis it raises nothing and
  returns \<open>None\<close>, having only recorded the analysis in \<open>latest_analysis\<close>; this is
  also what it returns, whatever the exchange would answer, on a tick with no signal and
  no position, on which no order is attempted.  (Without a full analysis no order is
  attempted either, and the result is \<open>None\<close> or an exception that does not come from
  the order.)
\<close>

theorem order_failure_aborts:
  "open_position self side p None = (None, self) \<and>
   close_position self p why None = (None, self) \<and>
   snd (act_on self an None) = self \<and>
   (fst (act_on self an None) = Inr None \<or> fst (act_on self an None) = Inl TypeError) \<and>
   tr_position (snd (run_analysis self df None)) = tr_position self \<and>
   tr_storage (snd (run_analysis self df None)) = tr_storage self \<and>
   (fst (run_analysis self df None) = Inr None \<or>
    (\<exists>e. fst (run_analysis self df None) = Inl e)) \<and>
   (fst (analyze (tr_strategy self) df) = Inr (Analysis a) \<longrightarrow>
      run_analysis self df None = (Inr None, self\<lparr>latest_analysis := Some (Analysis a)\<rparr>)) \<and>
   (fst (analyze (tr_strategy self) df) = Inr (Analysis a) \<and> signal a = None \<and>
    tr_position self = None \<longrightarrow>
      run_analysis self df ord = (Inr None, self\<lparr>latest_analysis := Some (Analysis a)\<rparr>))"
proof -
  have full: "run_analysis self df None = (Inr None, self\<lparr>latest_analysis := Some (Analysis a)\<rparr>)"
    if "fst (analyze (tr_strategy self) df) = Inr (Analysis a)"
  proof -
    have r: "run_analysis self df None =
               act_on (self\<lparr>latest_analysis := Some (Analysis a)\<rparr>) (Analysis a) None"
      by (rule run_analysis_Analysis [OF that])
    show ?thesis
      unfolding r by (rule act_on_Analysis_failed)
  qed
  have idle: "run_analysis self df ord = (Inr None, self\<lparr>latest_analysis := Some (Analysis a)\<rparr>)"
    if "fst (analyze (tr_strategy self) df) = Inr (Analysis a) \<and> signal a = None \<and>
        tr_position self = None"
  proof -
    from that have an: "fst (analyze (tr_strategy self) df) = Inr (Analysis a)"
      and sg: "signal a = None" and fl: "tr_position self = None" by blast+
    show ?thesis
      unfolding run_analysis_Analysis [OF an] using sg fl by (simp add: act_on_def)
  qed
  show ?thesis
    using open_position_failed [of self side p] close_position_failed [of self p why]
      act_on_failed [of self an] run_analysis_failed [of self df] full idle
    by blast
qed

theorem order_failure_aborts_witness:
  "open_position (Trader_init []) Buy 100 None = (None, Trader_init []) \<and>
   close_position (Trader_init (open_db 98 105)) 97 Signal None
     = (None, Trader_init (open_db 98 105)) \<and>
   tr_position (Trader_init (open_db 98 105)) \<noteq> None \<and>
   tr_position (snd (run_analysis (Trader_init (open_db 98 105)) sell_frame None))
     = tr_position (Trader_init (open_db 98 105)) \<and>
   tr_storage (snd (run_analysis (Trader_init (open_db 98 105)) sell_frame None)) = open_db 98 105 \<and>
   fst (run_analysis (Trader_init (open_db 98 105)) sell_frame None) = Inr None \<and>
   fst (analyze (tr_strategy (Trader_init [])) buy_frame) = Inr (Analysis buy_analysis) \<and>
   signal buy_analysis = Some Buy \<and> tr_position (Trader_init []) = None \<and>
   run_analysis (Trader_init []) buy_frame None =
     (Inr None, (Trader_init [])\<lparr>latest_analysis := Some (Analysis buy_analysis)\<rparr>) \<and>
   fst (analyze (tr_strategy (Trader_init [])) flat_frame) = Inr (Analysis flat_analysis) \<and>
   signal flat_analysis = None \<and>
   run_analysis (Trader_init []) flat_frame (Some Order) =
     (Inr None, (Trader_init [])\<lparr>latest_analysis := Some (Analysis flat_analysis)\<rparr>)"
proof -
  have 1: "fst (run_analysis (Trader_init (open_db 98 105)) sell_frame None) = Inr None"
    unfolding live_examples
    by (simp add: act_on_def close_position_failed Trader_init_open_db sell_analysis_eval)
  have b: "fst (analyze (tr_strategy (Trader_init [])) buy_frame) = Inr (Analysis buy_analysis)"
    "signal buy_analysis = Some Buy"
    unfolding Trader_init_strategy by (simp_all add: analyze_examples buy_analysis_eval)
  have f: "fst (analyze (tr_strategy (Trader_init [])) flat_frame) = Inr (Analysis flat_analysis)"
    "signal flat_analysis = None" "tr_position (Trader_init []) = None"
    unfolding Trader_init_strategy
    by (simp_all add: analyze_examples flat_analysis_eval Trader_init_open_db)
  have 2: "open_position (Trader_init []) Buy 100 None = (None, Trader_init []) \<and>
     run_analysis (Trader_init []) buy_frame None =
       (Inr None, (Trader_init [])\<lparr>latest_analysis := Some (Analysis buy_analysis)\<rparr>)"
    using order_failure_aborts [of "Trader_init []" Buy 100 Signal "Analysis buy_analysis"
        buy_frame buy_analysis None] b
    by blast
  have 3: "run_analysis (Trader_init []) flat_frame (Some Order) =
       (Inr None, (Trader_init [])\<lparr>latest_analysis := Some (Analysis flat_analysis)\<rparr>)"
    using order_failure_aborts [of "Trader_init []" Buy 100 Signal "Analysis flat_analysis"
        flat_frame flat_analysis "Some Order"] f
    by blast
  have 4: "close_position (Trader_init (open_db 98 105)) 97 Signal None
     = (None, Trader_init (open_db 98 105)) \<and>
   tr_position (snd (run_analysis (Trader_init (open_db 98 105)) sell_frame None))
     = tr_position (Trader_init (open_db 98 105)) \<and>
   tr_storage (snd (run_analysis (Trader_init (open_db 98 105)) sell_frame None)) = open_db 98 105"
    using order_failure_aborts [of "Trader_init (open_db 98 105)" Buy 97 Signal
        "Analysis sell_analysis" sell_frame sell_analysis None]
    by (simp add: Trader_init_open_db)
  have 5: "tr_position (Trader_init (open_db 98 105)) \<noteq> None"
    by (simp add: Trader_init_open_db)
  show ?thesis
    using 1 2 3 4 5 b f by blast
qed

section \<open>At most one open position\<close>

lemma act_on_position:
  assumes "tr_position (snd (act_on self an ord)) = Some q"
  shows "tr_position self = None \<or> tr_position self = Some q"
  using assms
  by (auto simp: act_on_def open_position_def close_position_def Let_def
      split: analysis_result.splits option.splits if_splits)

lemma act_on_open_no_buy:
  assumes "tr_position self = Some lpos"
  shows "fst (act_on self an ord) \<noteq> Inr (Some (Action_buy p s t))"
  using assms
  by (auto simp: act_on_def close_position_def Let_def
      split: analysis_result.splits option.splits if_splits)

lemma act_on_open_storage:
  assumes "tr_position self = Some lpos"
  shows "length (tr_storage (snd (act_on self an ord))) = length (tr_storage self)"
  using assms
  by (auto simp: act_on_def close_position_def close_trade_def Let_def
      split: analysis_result.splits option.splits if_splits)

lemma simulate_trade_position:
  assumes "bt_position (simulate_trade bt sg p ts an) = Some q"
  shows "bt_position bt = None \<or> bt_position bt = Some q"
  using assms
  by (auto simp: simulate_trade_def Let_def split: option.splits if_splits)

lemma simulate_trade_buy_open:
  "bt_position bt = Some pos \<Longrightarrow> simulate_trade bt Buy p ts an = bt"
  by (simp add: simulate_trade_def)

lemma simulate_trade_sell_flat:
  "bt_position bt = None \<Longrightarrow> simulate_trade bt Sell p ts an = bt"
  by (simp add: simulate_trade_def)

lemma check_flat: "bt_position bt = None \<Longrightarrow> check_stop_loss_take_profit bt c = bt"
  by (simp add: check_stop_loss_take_profit_def)

lemma check_position:
  assumes "bt_position (check_stop_loss_take_profit bt c) = Some q"
  shows "bt_position bt = Some q"
  using assms
  by (auto simp: check_stop_loss_take_profit_def Let_def split: option.splits if_splits)

text \<open>
  C8.  The ledger holds its position in one optional field, and no operation replaces an
  open position by another one: a position found after \<open>act_on\<close> (the trading logic of
  \<open>run_analysis\<close>), \<open>simulate_trade\<close> or \<open>check_stop_loss_take_profit\<close> is the one
  that was open before, unless the ledger was flat.  With a position open, a buy signal
  opens nothing: live, \<open>act_on\<close> returns no buy action and saves no trade; in the replay,
  \<open>simulate_trade\<close> with buy changes nothing.  A close while flat changes nothing and
  returns no trade: \<open>close_position\<close> returns \<open>None\<close>, and in the replay a sell signal
  and the stop-loss/take-profit check leave the state, and so the list of trades, as it
  was.
\<close>

theorem single_open_position:
  "(tr_position (snd (act_on self an ord)) = Some q \<longrightarrow>
      tr_position self = None \<or> tr_position self = Some q) \<and>
   (bt_position (simulate_trade bt sg p ts an) = Some bq \<longrightarrow>
      bt_position bt = None \<or> bt_position bt = Some bq) \<and>
   (bt_position (check_stop_loss_take_profit bt c) = Some bq \<longrightarrow> bt_position bt = Some bq) \<and>
   (tr_position self = Some lpos \<and> get_signal an = Some Buy \<longrightarrow>
      (\<forall>x s t. fst (act_on self an ord) \<noteq> Inr (Some (Action_buy x s t))) \<and>
      length (tr_storage (snd (act_on self an ord))) = length (tr_storage self) \<and>
      (tr_position (snd (act_on self an ord)) = Some lpos \<or>
       tr_position (snd (act_on self an ord)) = None)) \<and>
   (bt_position bt = Some pos \<longrightarrow> simulate_trade bt Buy p ts an = bt) \<and>
   (tr_position self = None \<longrightarrow> close_position self p why ord = (None, self)) \<and>
   (bt_position bt = None \<longrightarrow>
      simulate_trade bt Sell p ts an = bt \<and> check_stop_loss_take_profit bt c = bt)"
proof -
  have c1: "tr_position (snd (act_on self an ord)) = Some q \<longrightarrow>
      tr_position self = None \<or> tr_position self = Some q"
    using act_on_position [of self an ord q] by simp
  have c2: "bt_position (simulate_trade bt sg p ts an) = Some bq \<longrightarrow>
      bt_position bt = None \<or> bt_position bt = Some bq"
    using simulate_trade_position [of bt sg p ts an bq] by simp
  have c3: "bt_position (check_stop_loss_take_profit bt c) = Some bq \<longrightarrow> bt_position bt = Some bq"
    using check_position [of bt c bq] by simp
  have c4: "tr_position self = Some lpos \<and> get_signal an = Some Buy \<longrightarrow>
      (\<forall>x s t. fst (act_on self an ord) \<noteq> Inr (Some (Action_buy x s t))) \<and>
      length (tr_storage (snd (act_on self an ord))) = length (tr_storage self) \<and>
      (tr_position (snd (act_on self an ord)) = Some lpos \<or>
       tr_position (snd (act_on self an ord)) = None)"
  proof
    assume h: "tr_position self = Some lpos \<and> get_signal an = Some Buy"
    then have o: "tr_position self = Some lpos" by simp
    have "tr_position (snd (act_on self an ord)) = Some lpos \<or>
          tr_position (snd (act_on self an ord)) = None"
      using act_on_position [of self an ord] o
      by (cases "tr_position (snd (act_on self an ord))") auto
    then show "(\<forall>x s t. fst (act_on self an ord) \<noteq> Inr (Some (Action_buy x s t))) \<and>
      length (tr_storage (snd (act_on self an ord))) = length (tr_storage self) \<and>
      (tr_position (snd (act_on self an ord)) = Some lpos \<or>
       tr_position (snd (act_on self an ord)) = None)"
      using act_on_open_no_buy [OF o, of an ord] act_on_open_storage [OF o, of an ord] by simp
  qed
  have c5: "bt_position bt = Some pos \<longrightarrow> simulate_trade bt Buy p ts an = bt"
    by (simp add: simulate_trade_buy_open)
  have c6: "tr_position self = None \<longrightarrow> close_position self p why ord = (None, self)"
    by (simp add: close_position_flat)
  have c7: "bt_position bt = None \<longrightarrow>
      simulate_trade bt Sell p ts an = bt \<and> check_stop_loss_take_profit bt c = bt"
    by (simp add: simulate_trade_sell_flat check_flat)
  show ?thesis by (intro conjI; fact)
qed

theorem single_open_position_witness:
  "tr_position (Trader_init (open_db 98 105)) \<noteq> None \<and>
   get_signal (Analysis buy_analysis) = Some Buy \<and>
   fst (act_on (Trader_init (open_db 98 105)) (Analysis buy_analysis) (Some Order)) = Inr None \<and>
   tr_position (snd (act_on (Trader_init (open_db 98 105)) (Analysis buy_analysis) (Some Order)))
     = tr_position (Trader_init (open_db 98 105)) \<and>
   length (tr_storage (snd (act_on (Trader_init (open_db 98 105)) (Analysis buy_analysis)
                                   (Some Order)))) = 1 \<and>
   bt_position scenario_backtester \<noteq> None \<and>
   simulate_trade scenario_backtester Buy 96 60000 (Analysis buy_analysis) = scenario_backtester \<and>
   tr_position (Trader_init []) = None \<and>
   close_position (Trader_init []) 97 Signal (Some Order) = (None, Trader_init []) \<and>
   bt_position Backtester_init = None \<and>
   simulate_trade Backtester_init Sell 96 60000 (Analysis sell_analysis) = Backtester_init \<and>
   check_stop_loss_take_profit Backtester_init scenario_candle = Backtester_init"
proof -
  let ?pos = "\<lparr>p_type = ''long'', p_entry_price = 100, p_entry_time = 0,
        p_amount_btc = 95, p_amount_usd = 9500, p_sl = 95, p_tp = 110,
        p_reason = Joined [Uptrend_ok]\<rparr>"
  let ?lpos = "\<lparr>lp_symbol = ''BTC/USDT'', lp_type = Buy, lp_entry_price = 100,
        lp_amount = 0.001, lp_sl = 98, lp_tp = 105, lp_id = Some 1\<rparr>"
  have p: "bt_position scenario_backtester = Some ?pos"
    by (simp add: scenario_backtester_def)
  have n: "bt_position Backtester_init = None" by (simp add: Backtester_init_def)
  have lp: "tr_position (Trader_init (open_db 98 105)) = Some ?lpos"
    by (rule Trader_init_open_db)
  have fl: "tr_position (Trader_init []) = None" by (rule Trader_init_open_db)
  have a: "act_on (Trader_init (open_db 98 105)) (Analysis buy_analysis) (Some Order) =
             (Inr None, Trader_init (open_db 98 105))"
    by (simp add: act_on_def Trader_init_open_db buy_analysis_eval)
  have b: "get_signal (Analysis buy_analysis) = Some Buy" by (simp add: buy_analysis_eval)
  from single_open_position
      [where self = "Trader_init (open_db 98 105)" and an = "Analysis buy_analysis"
         and ord = "Some Order" and lpos = ?lpos and bt = scenario_backtester and pos = ?pos
         and p = 96 and ts = 60000] lp b p
  have 0: "length (tr_storage (snd (act_on (Trader_init (open_db 98 105))
                     (Analysis buy_analysis) (Some Order))))
             = length (tr_storage (Trader_init (open_db 98 105)))"
    and 1: "simulate_trade scenario_backtester Buy 96 60000 (Analysis buy_analysis)
              = scenario_backtester"
    by blast+
  from single_open_position
      [where self = "Trader_init []" and p = 97 and why = Signal and ord = "Some Order"] fl
  have 2: "close_position (Trader_init []) 97 Signal (Some Order) = (None, Trader_init [])"
    by blast
  from single_open_position
      [where bt = Backtester_init and p = 96 and ts = 60000 and an = "Analysis sell_analysis"
         and c = scenario_candle] n
  have 3: "simulate_trade Backtester_init Sell 96 60000 (Analysis sell_analysis) = Backtester_init"
    "check_stop_loss_take_profit Backtester_init scenario_candle = Backtester_init"
    by blast+
  have st: "length (tr_storage (Trader_init (open_db 98 105))) = 1"
    by (simp add: Trader_init_open_db open_db_def)
  show ?thesis
    using p n a b 0 1 2 3 st lp fl by simp
qed

section \<open>Profit factor\<close>

text \<open>
  C9.  The profit factor of the report is computed from the list of trades: it is
  +infinity when no trade has a PnL at or below zero, and it is
  |sum of the winning PnLs / sum of the losing PnLs| whenever the losing PnLs do not sum to
  zero.  One win of +100 and no loss gives +infinity; one win of +100 and one loss of -50
  give 2.  (\<open>generate_report\<close> computes nothing for an empty list of trades; losing
  trades that sum to zero also give +infinity.)
\<close>

theorem profit_factor_spec:
  "(trades bt \<noteq> [] \<longrightarrow>
      map_option profit_factor (generate_report bt) = Some (profit_factor_of (trades bt))) \<and>
   (filter (\<lambda>t. t_pnl_usd t \<le> 0) ts = [] \<longrightarrow> profit_factor_of ts = Infinity) \<and>
   (sum_list (map t_pnl_usd (filter (\<lambda>t. t_pnl_usd t \<le> 0) ts)) \<noteq> 0 \<longrightarrow>
      profit_factor_of ts =
        Finite \<bar>sum_list (map t_pnl_usd (filter (\<lambda>t. t_pnl_usd t > 0) ts)) /
                sum_list (map t_pnl_usd (filter (\<lambda>t. t_pnl_usd t \<le> 0) ts))\<bar>) \<and>
   (t_pnl_usd w = 100 \<longrightarrow> profit_factor_of [w] = Infinity) \<and>
   (t_pnl_usd w = 100 \<and> t_pnl_usd l = - 50 \<longrightarrow> profit_factor_of [w, l] = Finite 2)"
proof (intro conjI impI)
  assume "trades bt \<noteq> []"
  then show "map_option profit_factor (generate_report bt) = Some (profit_factor_of (trades bt))"
    by (simp add: generate_report_def Let_def)
next
  assume "filter (\<lambda>t. t_pnl_usd t \<le> 0) ts = []"
  then show "profit_factor_of ts = Infinity" by (simp add: profit_factor_of_def Let_def)
next
  assume "sum_list (map t_pnl_usd (filter (\<lambda>t. t_pnl_usd t \<le> 0) ts)) \<noteq> 0"
  then show "profit_factor_of ts =
        Finite \<bar>sum_list (map t_pnl_usd (filter (\<lambda>t. t_pnl_usd t > 0) ts)) /
                sum_list (map t_pnl_usd (filter (\<lambda>t. t_pnl_usd t \<le> 0) ts))\<bar>"
    by (auto simp: profit_factor_of_def Let_def)
next
  assume "t_pnl_usd w = 100"
  then show "profit_factor_of [w] = Infinity" by (simp add: profit_factor_of_def Let_def)
next
  assume "t_pnl_usd w = 100 \<and> t_pnl_usd l = - 50"
  then show "profit_factor_of [w, l] = Finite 2" by (simp add: profit_factor_of_def Let_def)
qed

theorem profit_factor_spec_witness:
  "t_pnl_usd win_trade = 100 \<and> t_pnl_usd loss_trade = - 50 \<and>
   profit_factor_of [win_trade] = Infinity \<and>
   profit_factor_of [win_trade, loss_trade] = Finite 2 \<and>
   map_option profit_factor (generate_report (Backtester_init\<lparr>trades := [win_trade]\<rparr>))
     = Some Infinity \<and>
   map_option profit_factor
     (generate_report (Backtester_init\<lparr>trades := [win_trade, loss_trade]\<rparr>)) = Some (Finite 2)"
proof -
  have w: "t_pnl_usd win_trade = 100" and l: "t_pnl_usd loss_trade = - 50"
    by (simp_all add: win_trade_def loss_trade_def)
  from profit_factor_spec [of "Backtester_init\<lparr>trades := [win_trade]\<rparr>" "[win_trade]"
      win_trade loss_trade] w l
  have 1: "profit_factor_of [win_trade] = Infinity"
    and 2: "profit_factor_of [win_trade, loss_trade] = Finite 2"
    and 3: "map_option profit_factor (generate_report (Backtester_init\<lparr>trades := [win_trade]\<rparr>))
              = Some (profit_factor_of [win_trade])"
    by (simp_all del: map_option_eq_Some)
  from profit_factor_spec [of "Backtester_init\<lparr>trades := [win_trade, loss_trade]\<rparr>"
      "[win_trade, loss_trade]" win_trade loss_trade]
  have 4: "map_option profit_factor
             (generate_report (Backtester_init\<lparr>trades := [win_trade, loss_trade]\<rparr>))
           = Some (profit_factor_of [win_trade, loss_trade])"
    by simp
  from w l 1 2 3 4 show ?thesis by simp
qed

section \<open>Effect of \<open>analyze\<close> on the frame\<close>

lemma rows_set_col [simp]: "rows (set_col df k col) = rows df"
  by (simp add: set_col_def)

lemma rows_analyze: "rows (snd (analyze self df)) = rows df"
  unfolding analyze_def calculate_ema_def calculate_macd_def Let_def
  by (simp split: if_splits)

lemma analyze_Insufficient:
  assumes "fst (analyze self df) = Inr Insufficient"
  shows "snd (analyze self df) = df"
proof (cases "rows df = [] \<or> length (rows df) < max (EMA_TREND self) (MACD_SLOW self)")
  case True
  then show ?thesis by (simp add: analyze_insufficient)
next
  case False
  have "fst (analyze self df) \<noteq> Inr Insufficient"
    unfolding analyze_def calculate_ema_def calculate_macd_def Let_def if_not_P[OF False]
    by (simp split: if_splits)
  with assms show ?thesis by simp
qed

lemma dom_with_indicators:
  "dom (derived (with_indicators self df)) = dom (derived df) \<union> indicator_columns"
  by (auto simp: with_indicators_def indicator_columns_def Let_def)

lemma with_indicators_other:
  "k \<notin> indicator_columns \<Longrightarrow> derived (with_indicators self df) k = derived df k"
  by (simp add: with_indicators_def indicator_columns_def Let_def)

text \<open>
  C10 as stated does not hold.  \<open>analyze\<close> on the 200 candles of \<open>flat_frame\<close>, a
  frame without derived columns: afterwards the frame has the seven indicator columns.
\<close>

theorem analyze_adds_columns:
  "dom (derived flat_frame) = {} \<and>
   dom (derived (snd (analyze Config flat_frame))) =
     {''ema_trend'', ''ema_fast'', ''ema_slow'', ''rsi'', ''macd'', ''macd_signal'',
      ''volume_avg''} \<and>
   snd (analyze Config flat_frame) \<noteq> flat_frame"
proof -
  have e: "dom (derived flat_frame) = {}" by (simp add: flat_frame_def DataFrame_def)
  have d: "dom (derived (snd (analyze Config flat_frame))) = indicator_columns"
    by (simp add: analyze_examples dom_with_indicators e)
  have "dom (derived (snd (analyze Config flat_frame))) \<noteq> dom (derived flat_frame)"
    unfolding d e by (simp add: indicator_columns_def)
  then have "snd (analyze Config flat_frame) \<noteq> flat_frame" by auto
  with e d show ?thesis by (simp add: indicator_columns_def)
qed

text \<open>
  C10, as amended.  \<open>analyze\<close> never changes the candle rows of the frame it is given.
  When it returns the insufficient-data dict the frame is unchanged.  When it returns the
  full dict, the frame it was given has been assigned the seven columns \<open>ema_trend\<close>,
  \<open>ema_fast\<close>, \<open>ema_slow\<close>, \<open>rsi\<close>, \<open>macd\<close>, \<open>macd_signal\<close> and
  \<open>volume_avg\<close>; any other column is as before.
\<close>

theorem analyze_frame_effect:
  "rows (snd (analyze self df)) = rows df \<and>
   (fst (analyze self df) = Inr Insufficient \<longrightarrow> snd (analyze self df) = df) \<and>
   (fst (analyze self df) = Inr (Analysis a) \<longrightarrow>
      snd (analyze self df) = with_indicators self df \<and>
      dom (derived (snd (analyze self df))) = dom (derived df) \<union> indicator_columns \<and>
      (\<forall>k. k \<notin> indicator_columns \<longrightarrow> derived (snd (analyze self df)) k = derived df k))"
  using rows_analyze [of self df] analyze_Insufficient [of self df]
    analyze_Analysis(2) [of self df a] dom_with_indicators [of self df]
    with_indicators_other [of _ self df]
  by auto

theorem analyze_frame_effect_witness:
  "fst (analyze Config (DataFrame [])) = Inr Insufficient \<and>
   snd (analyze Config (DataFrame [])) = DataFrame [] \<and>
   fst (analyze Config flat_frame) = Inr (Analysis flat_analysis) \<and>
   rows (snd (analyze Config flat_frame)) = rows flat_frame \<and>
   snd (analyze Config flat_frame) = with_indicators Config flat_frame \<and>
   dom (derived (snd (analyze Config flat_frame))) = dom (derived flat_frame) \<union> indicator_columns"
proof -
  have i: "fst (analyze Config (DataFrame [])) = Inr Insufficient"
    by (simp add: analyze_insufficient DataFrame_def)
  have f: "fst (analyze Config flat_frame) = Inr (Analysis flat_analysis)"
    by (simp add: analyze_examples)
  from analyze_frame_effect [of Config "DataFrame []" flat_analysis] i
  have 1: "snd (analyze Config (DataFrame [])) = DataFrame []" by blast
  from analyze_frame_effect [of Config flat_frame flat_analysis] f
  have 2: "rows (snd (analyze Config flat_frame)) = rows flat_frame"
    "snd (analyze Config flat_frame) = with_indicators Config flat_frame"
    "dom (derived (snd (analyze Config flat_frame))) = dom (derived flat_frame) \<union> indicator_columns"
    by blast+
  from i f 1 2 show ?thesis by blast
qed

end
